theory Spec2Isabelle
  imports Complex_Main
begin

section \<open>Data model (App.vue, section 2 of the script: declared types)\<close>

text \<open>
  The three interfaces of the script become records. JavaScript strings are modelled as
  HOL strings holding the UTF-8 bytes of the text; \<open>number\<close> coordinates are reals and
  play no part in any filtering decision.
\<close>

record Stop =
  stop_id :: string
  stop_name :: string
  stop_lat :: real
  stop_lon :: real

record StopMeta =
  is_tram :: bool
  lines :: "string list"
  wheelchair :: "bool option"

record Shape =
  route_name :: string
  color :: string
  points :: "real list list"

text \<open>
  The three JSON imports. \<open>stopsMeta\<close> is a \<open>Record<string, StopMeta>\<close> that is only
  ever indexed, so it is a partial map; \<open>shapesData\<close> is a \<open>Record<string, Shape>\<close>
  that is only ever enumerated with \<open>Object.values\<close>, so it is the list of its entries in
  enumeration order. Indexing a JavaScript object also finds the members it inherits
  from \<open>Object.prototype\<close>; the model takes stop ids and line names not to be among
  those member names (\<open>constructor\<close>, \<open>toString\<close> and the like), so that a lookup finds
  exactly the entries of the data.
\<close>

record Dataset =
  stopsData :: "Stop list"
  stopsMeta :: "string \<Rightarrow> StopMeta option"
  shapesData :: "(string \<times> Shape) list"

text \<open>The refs of section 3 of the script that make up the filter state.\<close>

record FilterState =
  showStops :: bool
  showBus :: bool
  showTram :: bool
  showAllLines :: bool
  searchQuery :: string
  selectedLines :: "string set"

definition Object_values :: "(string \<times> 'a) list \<Rightarrow> 'a list" where
  "Object_values obj = map snd obj"

section \<open>Strings and the string builtins\<close>

text \<open>
  A string of the model holds the UTF-8 bytes of a JavaScript string. The builtins
  \<open>trim\<close> and \<open>toLowerCase\<close> work on the code points of the string, so the bytes are
  first read back as code points. A byte that does not start a well-formed encoding is
  kept as it is; it is no white space and has no case. JavaScript compares and searches
  strings by UTF-16 code units; for strings without lone surrogates that is the same as
  comparing and searching their UTF-8 bytes.
\<close>

datatype Item = CodePoint int | Byte char

definition encodeCodePoint :: "int \<Rightarrow> string" where
  "encodeCodePoint c =
     (if c < 0x80 then [char_of c]
      else if c < 0x800 then [char_of (0xC0 + c div 64), char_of (0x80 + c mod 64)]
      else if c < 0x10000 then
        [char_of (0xE0 + c div 4096), char_of (0x80 + c div 64 mod 64), char_of (0x80 + c mod 64)]
      else
        [char_of (0xF0 + c div 262144), char_of (0x80 + c div 4096 mod 64),
         char_of (0x80 + c div 64 mod 64), char_of (0x80 + c mod 64)])"

definition leadLength :: "char \<Rightarrow> nat" where
  "leadLength b =
     (let n = (of_char b :: int)
      in if 0xC0 \<le> n \<and> n < 0xE0 then 2
         else if 0xE0 \<le> n \<and> n < 0xF0 then 3
         else if 0xF0 \<le> n \<and> n < 0xF8 then 4
         else 1)"

fun decodeBytes :: "string \<Rightarrow> int" where
  "decodeBytes [a] = of_char a"
| "decodeBytes [a, b] = (of_char a - 0xC0) * 64 + (of_char b - 0x80)"
| "decodeBytes [a, b, c] =
     (of_char a - 0xE0) * 4096 + (of_char b - 0x80) * 64 + (of_char c - 0x80)"
| "decodeBytes [a, b, c, d] =
     (of_char a - 0xF0) * 262144 + (of_char b - 0x80) * 4096 + (of_char c - 0x80) * 64 +
     (of_char d - 0x80)"
| "decodeBytes bs = 0"

text \<open>The bytes at the front are the encoding of a code point: they decode and encode back.\<close>

definition wellFormedAt :: "string \<Rightarrow> bool" where
  "wellFormedAt s =
     (case s of
        [] \<Rightarrow> False
      | b # bs \<Rightarrow>
          encodeCodePoint (decodeBytes (take (leadLength b) s)) = take (leadLength b) s)"

fun toCodePoints :: "string \<Rightarrow> Item list" where
  "toCodePoints [] = []"
| "toCodePoints (b # bs) =
     (if wellFormedAt (b # bs)
      then CodePoint (decodeBytes (take (leadLength b) (b # bs))) #
           toCodePoints (drop (leadLength b - 1) bs)
      else Byte b # toCodePoints bs)"

fun encodeItem :: "Item \<Rightarrow> string" where
  "encodeItem (CodePoint c) = encodeCodePoint c"
| "encodeItem (Byte b) = [b]"

definition fromCodePoints :: "Item list \<Rightarrow> string" where
  "fromCodePoints items = concat (map encodeItem items)"

text \<open>
  \<open>String.prototype.trim\<close> removes white space and line terminators from both ends.
  White space is U+0009, U+000B, U+000C, U+FEFF and the space separators (category Zs:
  U+0020, U+00A0, U+1680, U+2000 to U+200A, U+202F, U+205F, U+3000); the line
  terminators are U+000A, U+000D, U+2028 and U+2029.
\<close>

fun isWhiteSpace :: "Item \<Rightarrow> bool" where
  "isWhiteSpace (CodePoint c) =
     ((0x09 \<le> c \<and> c \<le> 0x0D) \<or> c = 0x20 \<or> c = 0xA0 \<or> c = 0x1680 \<or>
      (0x2000 \<le> c \<and> c \<le> 0x200A) \<or> c = 0x2028 \<or> c = 0x2029 \<or> c = 0x202F \<or>
      c = 0x205F \<or> c = 0x3000 \<or> c = 0xFEFF)"
| "isWhiteSpace (Byte b) = False"

definition trim :: "string \<Rightarrow> string" where
  "trim s =
     fromCodePoints (rev (dropWhile isWhiteSpace (rev (dropWhile isWhiteSpace (toCodePoints s)))))"

text \<open>
  \<open>String.prototype.toLowerCase\<close> is the default lower-case conversion of Unicode,
  without any locale: the simple lower-case mapping of each code point, except that
  U+0130 becomes U+0069 U+0307 and that U+03A3 (capital sigma) becomes the final sigma
  U+03C2 when a cased letter stands in front of it and none behind it, code points that are
  ignorable for case being skipped on both sides. The three tables are those of
  Unicode 14.0, as ranges. An entry \<open>(lo, hi, step, target)\<close> of \<open>lowerCaseTable\<close> maps
  every \<open>step\<close>-th code point from \<open>lo\<close> to \<open>hi\<close> to the code point at the same distance
  from \<open>target\<close>.
\<close>

definition lowerCaseTable :: "(int \<times> int \<times> int \<times> int) list" where
  "lowerCaseTable =
    [(0x41, 0x5A, 1, 0x61), (0xC0, 0xD6, 1, 0xE0), (0xD8, 0xDE, 1, 0xF8),
     (0x100, 0x12E, 2, 0x101), (0x132, 0x136, 2, 0x133), (0x139, 0x147, 2, 0x13A),
     (0x14A, 0x176, 2, 0x14B), (0x178, 0x178, 1, 0xFF), (0x179, 0x17D, 2, 0x17A),
     (0x181, 0x181, 1, 0x253), (0x182, 0x184, 2, 0x183), (0x186, 0x186, 1, 0x254),
     (0x187, 0x187, 1, 0x188), (0x189, 0x18A, 1, 0x256), (0x18B, 0x18B, 1, 0x18C),
     (0x18E, 0x18E, 1, 0x1DD), (0x18F, 0x18F, 1, 0x259), (0x190, 0x190, 1, 0x25B),
     (0x191, 0x191, 1, 0x192), (0x193, 0x193, 1, 0x260), (0x194, 0x194, 1, 0x263),
     (0x196, 0x196, 1, 0x269), (0x197, 0x197, 1, 0x268), (0x198, 0x198, 1, 0x199),
     (0x19C, 0x19C, 1, 0x26F), (0x19D, 0x19D, 1, 0x272), (0x19F, 0x19F, 1, 0x275),
     (0x1A0, 0x1A4, 2, 0x1A1), (0x1A6, 0x1A6, 1, 0x280), (0x1A7, 0x1A7, 1, 0x1A8),
     (0x1A9, 0x1A9, 1, 0x283), (0x1AC, 0x1AC, 1, 0x1AD), (0x1AE, 0x1AE, 1, 0x288),
     (0x1AF, 0x1AF, 1, 0x1B0), (0x1B1, 0x1B2, 1, 0x28A), (0x1B3, 0x1B5, 2, 0x1B4),
     (0x1B7, 0x1B7, 1, 0x292), (0x1B8, 0x1B8, 1, 0x1B9), (0x1BC, 0x1BC, 1, 0x1BD),
     (0x1C4, 0x1C4, 1, 0x1C6), (0x1C5, 0x1C5, 1, 0x1C6), (0x1C7, 0x1C7, 1, 0x1C9),
     (0x1C8, 0x1C8, 1, 0x1C9), (0x1CA, 0x1CA, 1, 0x1CC), (0x1CB, 0x1DB, 2, 0x1CC),
     (0x1DE, 0x1EE, 2, 0x1DF), (0x1F1, 0x1F1, 1, 0x1F3), (0x1F2, 0x1F4, 2, 0x1F3),
     (0x1F6, 0x1F6, 1, 0x195), (0x1F7, 0x1F7, 1, 0x1BF), (0x1F8, 0x21E, 2, 0x1F9),
     (0x220, 0x220, 1, 0x19E), (0x222, 0x232, 2, 0x223), (0x23A, 0x23A, 1, 0x2C65),
     (0x23B, 0x23B, 1, 0x23C), (0x23D, 0x23D, 1, 0x19A), (0x23E, 0x23E, 1, 0x2C66),
     (0x241, 0x241, 1, 0x242), (0x243, 0x243, 1, 0x180), (0x244, 0x244, 1, 0x289),
     (0x245, 0x245, 1, 0x28C), (0x246, 0x24E, 2, 0x247), (0x370, 0x372, 2, 0x371),
     (0x376, 0x376, 1, 0x377), (0x37F, 0x37F, 1, 0x3F3), (0x386, 0x386, 1, 0x3AC),
     (0x388, 0x38A, 1, 0x3AD), (0x38C, 0x38C, 1, 0x3CC), (0x38E, 0x38F, 1, 0x3CD),
     (0x391, 0x3A1, 1, 0x3B1), (0x3A3, 0x3AB, 1, 0x3C3), (0x3CF, 0x3CF, 1, 0x3D7),
     (0x3D8, 0x3EE, 2, 0x3D9), (0x3F4, 0x3F4, 1, 0x3B8), (0x3F7, 0x3F7, 1, 0x3F8),
     (0x3F9, 0x3F9, 1, 0x3F2), (0x3FA, 0x3FA, 1, 0x3FB), (0x3FD, 0x3FF, 1, 0x37B),
     (0x400, 0x40F, 1, 0x450), (0x410, 0x42F, 1, 0x430), (0x460, 0x480, 2, 0x461),
     (0x48A, 0x4BE, 2, 0x48B), (0x4C0, 0x4C0, 1, 0x4CF), (0x4C1, 0x4CD, 2, 0x4C2),
     (0x4D0, 0x52E, 2, 0x4D1), (0x531, 0x556, 1, 0x561), (0x10A0, 0x10C5, 1, 0x2D00),
     (0x10C7, 0x10C7, 1, 0x2D27), (0x10CD, 0x10CD, 1, 0x2D2D), (0x13A0, 0x13EF, 1, 0xAB70),
     (0x13F0, 0x13F5, 1, 0x13F8), (0x1C90, 0x1CBA, 1, 0x10D0), (0x1CBD, 0x1CBF, 1, 0x10FD),
     (0x1E00, 0x1E94, 2, 0x1E01), (0x1E9E, 0x1E9E, 1, 0xDF), (0x1EA0, 0x1EFE, 2, 0x1EA1),
     (0x1F08, 0x1F0F, 1, 0x1F00), (0x1F18, 0x1F1D, 1, 0x1F10), (0x1F28, 0x1F2F, 1, 0x1F20),
     (0x1F38, 0x1F3F, 1, 0x1F30), (0x1F48, 0x1F4D, 1, 0x1F40), (0x1F59, 0x1F5F, 2, 0x1F51),
     (0x1F68, 0x1F6F, 1, 0x1F60), (0x1F88, 0x1F8F, 1, 0x1F80), (0x1F98, 0x1F9F, 1, 0x1F90),
     (0x1FA8, 0x1FAF, 1, 0x1FA0), (0x1FB8, 0x1FB9, 1, 0x1FB0), (0x1FBA, 0x1FBB, 1, 0x1F70),
     (0x1FBC, 0x1FBC, 1, 0x1FB3), (0x1FC8, 0x1FCB, 1, 0x1F72), (0x1FCC, 0x1FCC, 1, 0x1FC3),
     (0x1FD8, 0x1FD9, 1, 0x1FD0), (0x1FDA, 0x1FDB, 1, 0x1F76), (0x1FE8, 0x1FE9, 1, 0x1FE0),
     (0x1FEA, 0x1FEB, 1, 0x1F7A), (0x1FEC, 0x1FEC, 1, 0x1FE5), (0x1FF8, 0x1FF9, 1, 0x1F78),
     (0x1FFA, 0x1FFB, 1, 0x1F7C), (0x1FFC, 0x1FFC, 1, 0x1FF3), (0x2126, 0x2126, 1, 0x3C9),
     (0x212A, 0x212A, 1, 0x6B), (0x212B, 0x212B, 1, 0xE5), (0x2132, 0x2132, 1, 0x214E),
     (0x2160, 0x216F, 1, 0x2170), (0x2183, 0x2183, 1, 0x2184), (0x24B6, 0x24CF, 1, 0x24D0),
     (0x2C00, 0x2C2F, 1, 0x2C30), (0x2C60, 0x2C60, 1, 0x2C61), (0x2C62, 0x2C62, 1, 0x26B),
     (0x2C63, 0x2C63, 1, 0x1D7D), (0x2C64, 0x2C64, 1, 0x27D), (0x2C67, 0x2C6B, 2, 0x2C68),
     (0x2C6D, 0x2C6D, 1, 0x251), (0x2C6E, 0x2C6E, 1, 0x271), (0x2C6F, 0x2C6F, 1, 0x250),
     (0x2C70, 0x2C70, 1, 0x252), (0x2C72, 0x2C72, 1, 0x2C73), (0x2C75, 0x2C75, 1, 0x2C76),
     (0x2C7E, 0x2C7F, 1, 0x23F), (0x2C80, 0x2CE2, 2, 0x2C81), (0x2CEB, 0x2CED, 2, 0x2CEC),
     (0x2CF2, 0x2CF2, 1, 0x2CF3), (0xA640, 0xA66C, 2, 0xA641), (0xA680, 0xA69A, 2, 0xA681),
     (0xA722, 0xA72E, 2, 0xA723), (0xA732, 0xA76E, 2, 0xA733), (0xA779, 0xA77B, 2, 0xA77A),
     (0xA77D, 0xA77D, 1, 0x1D79), (0xA77E, 0xA786, 2, 0xA77F), (0xA78B, 0xA78B, 1, 0xA78C),
     (0xA78D, 0xA78D, 1, 0x265), (0xA790, 0xA792, 2, 0xA791), (0xA796, 0xA7A8, 2, 0xA797),
     (0xA7AA, 0xA7AA, 1, 0x266), (0xA7AB, 0xA7AB, 1, 0x25C), (0xA7AC, 0xA7AC, 1, 0x261),
     (0xA7AD, 0xA7AD, 1, 0x26C), (0xA7AE, 0xA7AE, 1, 0x26A), (0xA7B0, 0xA7B0, 1, 0x29E),
     (0xA7B1, 0xA7B1, 1, 0x287), (0xA7B2, 0xA7B2, 1, 0x29D), (0xA7B3, 0xA7B3, 1, 0xAB53),
     (0xA7B4, 0xA7C2, 2, 0xA7B5), (0xA7C4, 0xA7C4, 1, 0xA794), (0xA7C5, 0xA7C5, 1, 0x282),
     (0xA7C6, 0xA7C6, 1, 0x1D8E), (0xA7C7, 0xA7C9, 2, 0xA7C8), (0xA7D0, 0xA7D0, 1, 0xA7D1),
     (0xA7D6, 0xA7D8, 2, 0xA7D7), (0xA7F5, 0xA7F5, 1, 0xA7F6), (0xFF21, 0xFF3A, 1, 0xFF41),
     (0x10400, 0x10427, 1, 0x10428), (0x104B0, 0x104D3, 1, 0x104D8), (0x10570, 0x1057A, 1, 0x10597),
     (0x1057C, 0x1058A, 1, 0x105A3), (0x1058C, 0x10592, 1, 0x105B3), (0x10594, 0x10595, 1, 0x105BB),
     (0x10C80, 0x10CB2, 1, 0x10CC0), (0x118A0, 0x118BF, 1, 0x118C0), (0x16E40, 0x16E5F, 1, 0x16E60),
     (0x1E900, 0x1E921, 1, 0x1E922)]"

definition casedTable :: "(int \<times> int) list" where
  "casedTable =
    [(0x41, 0x5A), (0x61, 0x7A), (0xAA, 0xAA), (0xB5, 0xB5), (0xBA, 0xBA),
     (0xC0, 0xD6), (0xD8, 0xF6), (0xF8, 0x1BA), (0x1BC, 0x1BF), (0x1C4, 0x293),
     (0x295, 0x2B8), (0x2C0, 0x2C1), (0x2E0, 0x2E4), (0x345, 0x345), (0x370, 0x373),
     (0x376, 0x377), (0x37A, 0x37D), (0x37F, 0x37F), (0x386, 0x386), (0x388, 0x38A),
     (0x38C, 0x38C), (0x38E, 0x3A1), (0x3A3, 0x3F5), (0x3F7, 0x481), (0x48A, 0x52F),
     (0x531, 0x556), (0x560, 0x588), (0x10A0, 0x10C5), (0x10C7, 0x10C7), (0x10CD, 0x10CD),
     (0x10D0, 0x10FA), (0x10FD, 0x10FF), (0x13A0, 0x13F5), (0x13F8, 0x13FD), (0x1C80, 0x1C88),
     (0x1C90, 0x1CBA), (0x1CBD, 0x1CBF), (0x1D00, 0x1DBF), (0x1E00, 0x1F15), (0x1F18, 0x1F1D),
     (0x1F20, 0x1F45), (0x1F48, 0x1F4D), (0x1F50, 0x1F57), (0x1F59, 0x1F59), (0x1F5B, 0x1F5B),
     (0x1F5D, 0x1F5D), (0x1F5F, 0x1F7D), (0x1F80, 0x1FB4), (0x1FB6, 0x1FBC), (0x1FBE, 0x1FBE),
     (0x1FC2, 0x1FC4), (0x1FC6, 0x1FCC), (0x1FD0, 0x1FD3), (0x1FD6, 0x1FDB), (0x1FE0, 0x1FEC),
     (0x1FF2, 0x1FF4), (0x1FF6, 0x1FFC), (0x2071, 0x2071), (0x207F, 0x207F), (0x2090, 0x209C),
     (0x2102, 0x2102), (0x2107, 0x2107), (0x210A, 0x2113), (0x2115, 0x2115), (0x2119, 0x211D),
     (0x2124, 0x2124), (0x2126, 0x2126), (0x2128, 0x2128), (0x212A, 0x212D), (0x212F, 0x2134),
     (0x2139, 0x2139), (0x213C, 0x213F), (0x2145, 0x2149), (0x214E, 0x214E), (0x2160, 0x217F),
     (0x2183, 0x2184), (0x24B6, 0x24E9), (0x2C00, 0x2CE4), (0x2CEB, 0x2CEE), (0x2CF2, 0x2CF3),
     (0x2D00, 0x2D25), (0x2D27, 0x2D27), (0x2D2D, 0x2D2D), (0xA640, 0xA66D), (0xA680, 0xA69D),
     (0xA722, 0xA787), (0xA78B, 0xA78E), (0xA790, 0xA7CA), (0xA7D0, 0xA7D1), (0xA7D3, 0xA7D3),
     (0xA7D5, 0xA7D9), (0xA7F5, 0xA7F6), (0xA7F8, 0xA7FA), (0xAB30, 0xAB5A), (0xAB5C, 0xAB68),
     (0xAB70, 0xABBF), (0xFB00, 0xFB06), (0xFB13, 0xFB17), (0xFF21, 0xFF3A), (0xFF41, 0xFF5A),
     (0x10400, 0x1044F), (0x104B0, 0x104D3), (0x104D8, 0x104FB), (0x10570, 0x1057A), (0x1057C, 0x1058A),
     (0x1058C, 0x10592), (0x10594, 0x10595), (0x10597, 0x105A1), (0x105A3, 0x105B1), (0x105B3, 0x105B9),
     (0x105BB, 0x105BC), (0x10780, 0x10780), (0x10783, 0x10785), (0x10787, 0x107B0), (0x107B2, 0x107BA),
     (0x10C80, 0x10CB2), (0x10CC0, 0x10CF2), (0x118A0, 0x118DF), (0x16E40, 0x16E7F), (0x1D400, 0x1D454),
     (0x1D456, 0x1D49C), (0x1D49E, 0x1D49F), (0x1D4A2, 0x1D4A2), (0x1D4A5, 0x1D4A6), (0x1D4A9, 0x1D4AC),
     (0x1D4AE, 0x1D4B9), (0x1D4BB, 0x1D4BB), (0x1D4BD, 0x1D4C3), (0x1D4C5, 0x1D505), (0x1D507, 0x1D50A),
     (0x1D50D, 0x1D514), (0x1D516, 0x1D51C), (0x1D51E, 0x1D539), (0x1D53B, 0x1D53E), (0x1D540, 0x1D544),
     (0x1D546, 0x1D546), (0x1D54A, 0x1D550), (0x1D552, 0x1D6A5), (0x1D6A8, 0x1D6C0), (0x1D6C2, 0x1D6DA),
     (0x1D6DC, 0x1D6FA), (0x1D6FC, 0x1D714), (0x1D716, 0x1D734), (0x1D736, 0x1D74E), (0x1D750, 0x1D76E),
     (0x1D770, 0x1D788), (0x1D78A, 0x1D7A8), (0x1D7AA, 0x1D7C2), (0x1D7C4, 0x1D7CB), (0x1DF00, 0x1DF09),
     (0x1DF0B, 0x1DF1E), (0x1E900, 0x1E943), (0x1F130, 0x1F149), (0x1F150, 0x1F169), (0x1F170, 0x1F189)]"

definition caseIgnorableTable :: "(int \<times> int) list" where
  "caseIgnorableTable =
    [(0x27, 0x27), (0x2E, 0x2E), (0x3A, 0x3A), (0x5E, 0x5E), (0x60, 0x60),
     (0xA8, 0xA8), (0xAD, 0xAD), (0xAF, 0xAF), (0xB4, 0xB4), (0xB7, 0xB8),
     (0x2B0, 0x36F), (0x374, 0x375), (0x37A, 0x37A), (0x384, 0x385), (0x387, 0x387),
     (0x483, 0x489), (0x559, 0x559), (0x55F, 0x55F), (0x591, 0x5BD), (0x5BF, 0x5BF),
     (0x5C1, 0x5C2), (0x5C4, 0x5C5), (0x5C7, 0x5C7), (0x5F4, 0x5F4), (0x600, 0x605),
     (0x610, 0x61A), (0x61C, 0x61C), (0x640, 0x640), (0x64B, 0x65F), (0x670, 0x670),
     (0x6D6, 0x6DD), (0x6DF, 0x6E8), (0x6EA, 0x6ED), (0x70F, 0x70F), (0x711, 0x711),
     (0x730, 0x74A), (0x7A6, 0x7B0), (0x7EB, 0x7F5), (0x7FA, 0x7FA), (0x7FD, 0x7FD),
     (0x816, 0x82D), (0x859, 0x85B), (0x888, 0x888), (0x890, 0x891), (0x898, 0x89F),
     (0x8C9, 0x902), (0x93A, 0x93A), (0x93C, 0x93C), (0x941, 0x948), (0x94D, 0x94D),
     (0x951, 0x957), (0x962, 0x963), (0x971, 0x971), (0x981, 0x981), (0x9BC, 0x9BC),
     (0x9C1, 0x9C4), (0x9CD, 0x9CD), (0x9E2, 0x9E3), (0x9FE, 0x9FE), (0xA01, 0xA02),
     (0xA3C, 0xA3C), (0xA41, 0xA42), (0xA47, 0xA48), (0xA4B, 0xA4D), (0xA51, 0xA51),
     (0xA70, 0xA71), (0xA75, 0xA75), (0xA81, 0xA82), (0xABC, 0xABC), (0xAC1, 0xAC5),
     (0xAC7, 0xAC8), (0xACD, 0xACD), (0xAE2, 0xAE3), (0xAFA, 0xAFF), (0xB01, 0xB01),
     (0xB3C, 0xB3C), (0xB3F, 0xB3F), (0xB41, 0xB44), (0xB4D, 0xB4D), (0xB55, 0xB56),
     (0xB62, 0xB63), (0xB82, 0xB82), (0xBC0, 0xBC0), (0xBCD, 0xBCD), (0xC00, 0xC00),
     (0xC04, 0xC04), (0xC3C, 0xC3C), (0xC3E, 0xC40), (0xC46, 0xC48), (0xC4A, 0xC4D),
     (0xC55, 0xC56), (0xC62, 0xC63), (0xC81, 0xC81), (0xCBC, 0xCBC), (0xCBF, 0xCBF),
     (0xCC6, 0xCC6), (0xCCC, 0xCCD), (0xCE2, 0xCE3), (0xD00, 0xD01), (0xD3B, 0xD3C),
     (0xD41, 0xD44), (0xD4D, 0xD4D), (0xD62, 0xD63), (0xD81, 0xD81), (0xDCA, 0xDCA),
     (0xDD2, 0xDD4), (0xDD6, 0xDD6), (0xE31, 0xE31), (0xE34, 0xE3A), (0xE46, 0xE4E),
     (0xEB1, 0xEB1), (0xEB4, 0xEBC), (0xEC6, 0xEC6), (0xEC8, 0xECD), (0xF18, 0xF19),
     (0xF35, 0xF35), (0xF37, 0xF37), (0xF39, 0xF39), (0xF71, 0xF7E), (0xF80, 0xF84),
     (0xF86, 0xF87), (0xF8D, 0xF97), (0xF99, 0xFBC), (0xFC6, 0xFC6), (0x102D, 0x1030),
     (0x1032, 0x1037), (0x1039, 0x103A), (0x103D, 0x103E), (0x1058, 0x1059), (0x105E, 0x1060),
     (0x1071, 0x1074), (0x1082, 0x1082), (0x1085, 0x1086), (0x108D, 0x108D), (0x109D, 0x109D),
     (0x10FC, 0x10FC), (0x135D, 0x135F), (0x1712, 0x1714), (0x1732, 0x1733), (0x1752, 0x1753),
     (0x1772, 0x1773), (0x17B4, 0x17B5), (0x17B7, 0x17BD), (0x17C6, 0x17C6), (0x17C9, 0x17D3),
     (0x17D7, 0x17D7), (0x17DD, 0x17DD), (0x180B, 0x180F), (0x1843, 0x1843), (0x1885, 0x1886),
     (0x18A9, 0x18A9), (0x1920, 0x1922), (0x1927, 0x1928), (0x1932, 0x1932), (0x1939, 0x193B),
     (0x1A17, 0x1A18), (0x1A1B, 0x1A1B), (0x1A56, 0x1A56), (0x1A58, 0x1A5E), (0x1A60, 0x1A60),
     (0x1A62, 0x1A62), (0x1A65, 0x1A6C), (0x1A73, 0x1A7C), (0x1A7F, 0x1A7F), (0x1AA7, 0x1AA7),
     (0x1AB0, 0x1ACE), (0x1B00, 0x1B03), (0x1B34, 0x1B34), (0x1B36, 0x1B3A), (0x1B3C, 0x1B3C),
     (0x1B42, 0x1B42), (0x1B6B, 0x1B73), (0x1B80, 0x1B81), (0x1BA2, 0x1BA5), (0x1BA8, 0x1BA9),
     (0x1BAB, 0x1BAD), (0x1BE6, 0x1BE6), (0x1BE8, 0x1BE9), (0x1BED, 0x1BED), (0x1BEF, 0x1BF1),
     (0x1C2C, 0x1C33), (0x1C36, 0x1C37), (0x1C78, 0x1C7D), (0x1CD0, 0x1CD2), (0x1CD4, 0x1CE0),
     (0x1CE2, 0x1CE8), (0x1CED, 0x1CED), (0x1CF4, 0x1CF4), (0x1CF8, 0x1CF9), (0x1D2C, 0x1D6A),
     (0x1D78, 0x1D78), (0x1D9B, 0x1DFF), (0x1FBD, 0x1FBD), (0x1FBF, 0x1FC1), (0x1FCD, 0x1FCF),
     (0x1FDD, 0x1FDF), (0x1FED, 0x1FEF), (0x1FFD, 0x1FFE), (0x200B, 0x200F), (0x2018, 0x2019),
     (0x2024, 0x2024), (0x2027, 0x2027), (0x202A, 0x202E), (0x2060, 0x2064), (0x2066, 0x206F),
     (0x2071, 0x2071), (0x207F, 0x207F), (0x2090, 0x209C), (0x20D0, 0x20F0), (0x2C7C, 0x2C7D),
     (0x2CEF, 0x2CF1), (0x2D6F, 0x2D6F), (0x2D7F, 0x2D7F), (0x2DE0, 0x2DFF), (0x2E2F, 0x2E2F),
     (0x3005, 0x3005), (0x302A, 0x302D), (0x3031, 0x3035), (0x303B, 0x303B), (0x3099, 0x309E),
     (0x30FC, 0x30FE), (0xA015, 0xA015), (0xA4F8, 0xA4FD), (0xA60C, 0xA60C), (0xA66F, 0xA672),
     (0xA674, 0xA67D), (0xA67F, 0xA67F), (0xA69C, 0xA69F), (0xA6F0, 0xA6F1), (0xA700, 0xA721),
     (0xA770, 0xA770), (0xA788, 0xA78A), (0xA7F2, 0xA7F4), (0xA7F8, 0xA7F9), (0xA802, 0xA802),
     (0xA806, 0xA806), (0xA80B, 0xA80B), (0xA825, 0xA826), (0xA82C, 0xA82C), (0xA8C4, 0xA8C5),
     (0xA8E0, 0xA8F1), (0xA8FF, 0xA8FF), (0xA926, 0xA92D), (0xA947, 0xA951), (0xA980, 0xA982),
     (0xA9B3, 0xA9B3), (0xA9B6, 0xA9B9), (0xA9BC, 0xA9BD), (0xA9CF, 0xA9CF), (0xA9E5, 0xA9E6),
     (0xAA29, 0xAA2E), (0xAA31, 0xAA32), (0xAA35, 0xAA36), (0xAA43, 0xAA43), (0xAA4C, 0xAA4C),
     (0xAA70, 0xAA70), (0xAA7C, 0xAA7C), (0xAAB0, 0xAAB0), (0xAAB2, 0xAAB4), (0xAAB7, 0xAAB8),
     (0xAABE, 0xAABF), (0xAAC1, 0xAAC1), (0xAADD, 0xAADD), (0xAAEC, 0xAAED), (0xAAF3, 0xAAF4),
     (0xAAF6, 0xAAF6), (0xAB5B, 0xAB5F), (0xAB69, 0xAB6B), (0xABE5, 0xABE5), (0xABE8, 0xABE8),
     (0xABED, 0xABED), (0xFB1E, 0xFB1E), (0xFBB2, 0xFBC2), (0xFE00, 0xFE0F), (0xFE13, 0xFE13),
     (0xFE20, 0xFE2F), (0xFE52, 0xFE52), (0xFE55, 0xFE55), (0xFEFF, 0xFEFF), (0xFF07, 0xFF07),
     (0xFF0E, 0xFF0E), (0xFF1A, 0xFF1A), (0xFF3E, 0xFF3E), (0xFF40, 0xFF40), (0xFF70, 0xFF70),
     (0xFF9E, 0xFF9F), (0xFFE3, 0xFFE3), (0xFFF9, 0xFFFB), (0x101FD, 0x101FD), (0x102E0, 0x102E0),
     (0x10376, 0x1037A), (0x10780, 0x10785), (0x10787, 0x107B0), (0x107B2, 0x107BA), (0x10A01, 0x10A03),
     (0x10A05, 0x10A06), (0x10A0C, 0x10A0F), (0x10A38, 0x10A3A), (0x10A3F, 0x10A3F), (0x10AE5, 0x10AE6),
     (0x10D24, 0x10D27), (0x10EAB, 0x10EAC), (0x10F46, 0x10F50), (0x10F82, 0x10F85), (0x11001, 0x11001),
     (0x11038, 0x11046), (0x11070, 0x11070), (0x11073, 0x11074), (0x1107F, 0x11081), (0x110B3, 0x110B6),
     (0x110B9, 0x110BA), (0x110BD, 0x110BD), (0x110C2, 0x110C2), (0x110CD, 0x110CD), (0x11100, 0x11102),
     (0x11127, 0x1112B), (0x1112D, 0x11134), (0x11173, 0x11173), (0x11180, 0x11181), (0x111B6, 0x111BE),
     (0x111C9, 0x111CC), (0x111CF, 0x111CF), (0x1122F, 0x11231), (0x11234, 0x11234), (0x11236, 0x11237),
     (0x1123E, 0x1123E), (0x112DF, 0x112DF), (0x112E3, 0x112EA), (0x11300, 0x11301), (0x1133B, 0x1133C),
     (0x11340, 0x11340), (0x11366, 0x1136C), (0x11370, 0x11374), (0x11438, 0x1143F), (0x11442, 0x11444),
     (0x11446, 0x11446), (0x1145E, 0x1145E), (0x114B3, 0x114B8), (0x114BA, 0x114BA), (0x114BF, 0x114C0),
     (0x114C2, 0x114C3), (0x115B2, 0x115B5), (0x115BC, 0x115BD), (0x115BF, 0x115C0), (0x115DC, 0x115DD),
     (0x11633, 0x1163A), (0x1163D, 0x1163D), (0x1163F, 0x11640), (0x116AB, 0x116AB), (0x116AD, 0x116AD),
     (0x116B0, 0x116B5), (0x116B7, 0x116B7), (0x1171D, 0x1171F), (0x11722, 0x11725), (0x11727, 0x1172B),
     (0x1182F, 0x11837), (0x11839, 0x1183A), (0x1193B, 0x1193C), (0x1193E, 0x1193E), (0x11943, 0x11943),
     (0x119D4, 0x119D7), (0x119DA, 0x119DB), (0x119E0, 0x119E0), (0x11A01, 0x11A0A), (0x11A33, 0x11A38),
     (0x11A3B, 0x11A3E), (0x11A47, 0x11A47), (0x11A51, 0x11A56), (0x11A59, 0x11A5B), (0x11A8A, 0x11A96),
     (0x11A98, 0x11A99), (0x11C30, 0x11C36), (0x11C38, 0x11C3D), (0x11C3F, 0x11C3F), (0x11C92, 0x11CA7),
     (0x11CAA, 0x11CB0), (0x11CB2, 0x11CB3), (0x11CB5, 0x11CB6), (0x11D31, 0x11D36), (0x11D3A, 0x11D3A),
     (0x11D3C, 0x11D3D), (0x11D3F, 0x11D45), (0x11D47, 0x11D47), (0x11D90, 0x11D91), (0x11D95, 0x11D95),
     (0x11D97, 0x11D97), (0x11EF3, 0x11EF4), (0x13430, 0x13438), (0x16AF0, 0x16AF4), (0x16B30, 0x16B36),
     (0x16B40, 0x16B43), (0x16F4F, 0x16F4F), (0x16F8F, 0x16F9F), (0x16FE0, 0x16FE1), (0x16FE3, 0x16FE4),
     (0x1AFF0, 0x1AFF3), (0x1AFF5, 0x1AFFB), (0x1AFFD, 0x1AFFE), (0x1BC9D, 0x1BC9E), (0x1BCA0, 0x1BCA3),
     (0x1CF00, 0x1CF2D), (0x1CF30, 0x1CF46), (0x1D167, 0x1D169), (0x1D173, 0x1D182), (0x1D185, 0x1D18B),
     (0x1D1AA, 0x1D1AD), (0x1D242, 0x1D244), (0x1DA00, 0x1DA36), (0x1DA3B, 0x1DA6C), (0x1DA75, 0x1DA75),
     (0x1DA84, 0x1DA84), (0x1DA9B, 0x1DA9F), (0x1DAA1, 0x1DAAF), (0x1E000, 0x1E006), (0x1E008, 0x1E018),
     (0x1E01B, 0x1E021), (0x1E023, 0x1E024), (0x1E026, 0x1E02A), (0x1E130, 0x1E13D), (0x1E2AE, 0x1E2AE),
     (0x1E2EC, 0x1E2EF), (0x1E8D0, 0x1E8D6), (0x1E944, 0x1E94B), (0x1F3FB, 0x1F3FF), (0xE0001, 0xE0001),
     (0xE0020, 0xE007F), (0xE0100, 0xE01EF)]"

definition inRanges :: "(int \<times> int) list \<Rightarrow> int \<Rightarrow> bool" where
  "inRanges table c = list_ex (\<lambda>(lo, hi). lo \<le> c \<and> c \<le> hi) table"

fun isCased :: "Item \<Rightarrow> bool" where
  "isCased (CodePoint c) = inRanges casedTable c"
| "isCased (Byte b) = False"

fun isCaseIgnorable :: "Item \<Rightarrow> bool" where
  "isCaseIgnorable (CodePoint c) = inRanges caseIgnorableTable c"
| "isCaseIgnorable (Byte b) = False"

fun entryApplies :: "int \<Rightarrow> int \<times> int \<times> int \<times> int \<Rightarrow> bool" where
  "entryApplies c (lo, hi, step, target) = (lo \<le> c \<and> c \<le> hi \<and> (c - lo) mod step = 0)"

definition lowerCaseMapping :: "int \<Rightarrow> int" where
  "lowerCaseMapping c =
     (case find (entryApplies c) lowerCaseTable of
        None \<Rightarrow> c
      | Some (lo, hi, step, target) \<Rightarrow> target + (c - lo))"

text \<open>\<open>pre\<close> holds the items in front of the sigma, the nearest first; \<open>post\<close> those behind it.\<close>

definition finalSigma :: "Item list \<Rightarrow> Item list \<Rightarrow> bool" where
  "finalSigma pre post =
     ((case dropWhile isCaseIgnorable pre of [] \<Rightarrow> False | x # _ \<Rightarrow> isCased x) \<and>
      (case dropWhile isCaseIgnorable post of [] \<Rightarrow> True | x # _ \<Rightarrow> \<not> isCased x))"

fun lowerCaseItem :: "Item list \<Rightarrow> Item \<Rightarrow> Item list \<Rightarrow> Item list" where
  "lowerCaseItem pre (Byte b) post = [Byte b]"
| "lowerCaseItem pre (CodePoint c) post =
     (if c = 0x3A3 then [CodePoint (if finalSigma pre post then 0x3C2 else 0x3C3)]
      else if c = 0x130 then [CodePoint 0x69, CodePoint 0x307]
      else [CodePoint (lowerCaseMapping c)])"

fun lowerCaseItems :: "Item list \<Rightarrow> Item list \<Rightarrow> Item list" where
  "lowerCaseItems pre [] = []"
| "lowerCaseItems pre (x # post) =
     lowerCaseItem pre x post @ lowerCaseItems (x # pre) post"

definition toLowerCase :: "string \<Rightarrow> string" where
  "toLowerCase s = fromCodePoints (lowerCaseItems [] (toCodePoints s))"

section \<open>Computed properties (section 6 of the script)\<close>

subsection \<open>Step 1: stopsFilteredByType\<close>

definition keepByType :: "Dataset \<Rightarrow> FilterState \<Rightarrow> Stop \<Rightarrow> bool" where
  "keepByType d fs stop =
     (let meta = stopsMeta d (stop_id stop);
          isTram = (case meta of Some m \<Rightarrow> is_tram m | None \<Rightarrow> False)
      in if isTram \<and> \<not> showTram fs then False
         else if \<not> isTram \<and> \<not> showBus fs then False
         else True)"

definition stopsFilteredByType :: "Dataset \<Rightarrow> FilterState \<Rightarrow> Stop list" where
  "stopsFilteredByType d fs = filter (keepByType d fs) (stopsData d)"

subsection \<open>Step 2: visibleStops\<close>

definition onSelectedLine :: "Dataset \<Rightarrow> FilterState \<Rightarrow> Stop \<Rightarrow> bool" where
  "onSelectedLine d fs stop =
     (case stopsMeta d (stop_id stop) of
        None \<Rightarrow> False
      | Some meta \<Rightarrow> list_ex (\<lambda>line. line \<in> selectedLines fs) (lines meta))"

definition visibleStops :: "Dataset \<Rightarrow> FilterState \<Rightarrow> Stop list" where
  "visibleStops d fs =
     (if \<not> showStops fs then []
      else let baseStops = stopsFilteredByType d fs
           in if selectedLines fs = {} then baseStops
              else filter (onSelectedLine d fs) baseStops)"

subsection \<open>Step 3: stats\<close>

text \<open>
  \<open>linesMap\<close> is a JavaScript \<open>Map\<close>: it enumerates its keys in the order of their first
  insertion, and \<open>set\<close> on a key already present replaces the value in place. It is an
  association list in insertion order.
\<close>

type_synonym LinesMap = "(string \<times> nat) list"

definition Map_get :: "LinesMap \<Rightarrow> string \<Rightarrow> nat option" where
  "Map_get m k = map_of m k"

fun Map_set :: "LinesMap \<Rightarrow> string \<Rightarrow> nat \<Rightarrow> LinesMap" where
  "Map_set [] k v = [(k, v)]"
| "Map_set ((k', v') # m) k v =
     (if k' = k then (k', v) # m else (k', v') # Map_set m k v)"

text \<open>\<open>linesMap.set(line, (linesMap.get(line) || 0) + 1)\<close>\<close>

definition countLine :: "LinesMap \<Rightarrow> string \<Rightarrow> LinesMap" where
  "countLine m line =
     Map_set m line ((case Map_get m line of None \<Rightarrow> 0 | Some c \<Rightarrow> c) + 1)"

text \<open>
  The body of the \<open>forEach\<close> over the type-filtered stops, on the three local variables
  \<open>busCount\<close>, \<open>tramCount\<close> and \<open>linesMap\<close>.
\<close>

definition aggregateStop ::
  "Dataset \<Rightarrow> nat \<times> nat \<times> LinesMap \<Rightarrow> Stop \<Rightarrow> nat \<times> nat \<times> LinesMap" where
  "aggregateStop d acc stop =
     (case acc of (busCount, tramCount, linesMap) \<Rightarrow>
        (case stopsMeta d (stop_id stop) of
           None \<Rightarrow> (busCount, tramCount, linesMap)
         | Some meta \<Rightarrow>
             (if is_tram meta then busCount else busCount + 1,
              if is_tram meta then tramCount + 1 else tramCount,
              foldl countLine linesMap (lines meta))))"

definition aggregate :: "Dataset \<Rightarrow> FilterState \<Rightarrow> nat \<times> nat \<times> LinesMap" where
  "aggregate d fs = foldl (aggregateStop d) (0, 0, []) (stopsFilteredByType d fs)"

text \<open>
  \<open>Array.prototype.sort\<close> with a comparator is a stable sort: the result is the
  permutation in which \<open>cmp a b \<le> 0\<close> for neighbours and elements that compare equal
  keep their order. Insertion from the right computes that permutation.
\<close>

fun insertBy :: "('a \<Rightarrow> 'a \<Rightarrow> int) \<Rightarrow> 'a \<Rightarrow> 'a list \<Rightarrow> 'a list" where
  "insertBy cmp x [] = [x]"
| "insertBy cmp x (y # ys) =
     (if cmp x y \<le> 0 then x # y # ys else y # insertBy cmp x ys)"

fun Array_sort :: "('a \<Rightarrow> 'a \<Rightarrow> int) \<Rightarrow> 'a list \<Rightarrow> 'a list" where
  "Array_sort cmp [] = []"
| "Array_sort cmp (x # xs) = insertBy cmp x (Array_sort cmp xs)"

text \<open>\<open>(a, b) => b[1] - a[1]\<close>\<close>

definition byPopularity :: "string \<times> nat \<Rightarrow> string \<times> nat \<Rightarrow> int" where
  "byPopularity a b = int (snd b) - int (snd a)"

record LineStat =
  name :: string
  count :: nat

definition toLineStat :: "string \<times> nat \<Rightarrow> LineStat" where
  "toLineStat e = (case e of (n, c) \<Rightarrow> \<lparr>name = n, count = c\<rparr>)"

definition sortedLines :: "Dataset \<Rightarrow> FilterState \<Rightarrow> LineStat list" where
  "sortedLines d fs =
     (case aggregate d fs of (busCount, tramCount, linesMap) \<Rightarrow>
        map toLineStat (Array_sort byPopularity linesMap))"

fun String_startsWith :: "string \<Rightarrow> string \<Rightarrow> bool" where
  "String_startsWith s [] = True"
| "String_startsWith [] (q # qs) = False"
| "String_startsWith (c # cs) (q # qs) = (c = q \<and> String_startsWith cs qs)"

fun String_includes :: "string \<Rightarrow> string \<Rightarrow> bool" where
  "String_includes [] q = String_startsWith [] q"
| "String_includes (c # cs) q = (String_startsWith (c # cs) q \<or> String_includes cs q)"

definition searchedLines :: "Dataset \<Rightarrow> FilterState \<Rightarrow> LineStat list" where
  "searchedLines d fs =
     (if trim (searchQuery fs) \<noteq> []
      then let query = toLowerCase (searchQuery fs)
           in filter (\<lambda>l. String_includes (toLowerCase (name l)) query) (sortedLines d fs)
      else sortedLines d fs)"

record Stats =
  busCount :: nat
  tramCount :: nat
  displayedLines :: "LineStat list"
  totalLines :: nat

definition stats :: "Dataset \<Rightarrow> FilterState \<Rightarrow> Stats" where
  "stats d fs =
     (case aggregate d fs of (bc, tc, linesMap) \<Rightarrow>
        let sl = searchedLines d fs
        in \<lparr>busCount = bc, tramCount = tc,
            displayedLines = (if showAllLines fs \<or> searchQuery fs \<noteq> [] then sl else take 6 sl),
            totalLines = length sl\<rparr>)"

section \<open>Icons and helpers (sections 4 and 5 of the script)\<close>

definition busSVG :: string where
  \<open>busSVG =
     ''<svg xmlns="http://www.w3.org/2000/svg" viewBox="0 0 640 640" width="16" height="16"'' @
     '' fill="currentColor"><path d="M192 64C139 64 96 107 96 160L96 448C96 477.8 116.4 502'' @
     ''.9 144 510L144 544C144 561.7 158.3 576 176 576L192 576C209.7 576 224 561.7 224 544L2'' @
     ''24 512L416 512L416 544C416 561.7 430.3 576 448 576L464 576C481.7 576 496 561.7 496 5'' @
     ''44L496 510C523.6 502.9 544 477.8 544 448L544 160C544 107 501 64 448 64L192 64zM160 2'' @
     ''40C160 222.3 174.3 208 192 208L296 208L296 320L192 320C174.3 320 160 305.7 160 288L1'' @
     ''60 240zM344 320L344 208L448 208C465.7 208 480 222.3 480 240L480 288C480 305.7 465.7 '' @
     ''320 448 320L344 320zM192 384C209.7 384 224 398.3 224 416C224 433.7 209.7 448 192 448'' @
     ''C174.3 448 160 433.7 160 416C160 398.3 174.3 384 192 384zM448 384C465.7 384 480 398.'' @
     ''3 480 416C480 433.7 465.7 448 448 448C430.3 448 416 433.7 416 416C416 398.3 430.3 38'' @
     ''4 448 384zM248 136C248 122.7 258.7 112 272 112L368 112C381.3 112 392 122.7 392 136C3'' @
     ''92 149.3 381.3 160 368 160L272 160C258.7 160 248 149.3 248 136z"/></svg>''\<close>

definition tramSVG :: string where
  \<open>tramSVG =
     ''<svg xmlns="http://www.w3.org/2000/svg" viewBox="0 0 640 640" width="16" height="16"'' @
     '' fill="currentColor"><path d="M128 72C128 58.7 138.7 48 152 48L488 48C501.3 48 512 5'' @
     ''8.7 512 72L512 104C512 117.3 501.3 128 488 128C474.7 128 464 117.3 464 104L464 96L34'' @
     ''4 96L344 160L384 160C437 160 480 203 480 256L480 416C480 447.2 465.1 475 442 492.5L5'' @
     ''06.3 568.5C514.9 578.6 513.6 593.8 503.5 602.3C493.4 610.8 478.2 609.6 469.7 599.5L3'' @
     ''95.1 511.4C391.5 511.8 387.8 512 384 512L256 512C252.2 512 248.5 511.8 244.9 511.4L1'' @
     ''70.3 599.5C161.7 609.6 146.6 610.9 136.5 602.3C126.4 593.7 125.1 578.6 133.7 568.5L1'' @
     ''98 492.5C174.9 475 160 447.2 160 416L160 256C160 203 203 160 256 160L296 160L296 96L'' @
     ''176 96L176 104C176 117.3 165.3 128 152 128C138.7 128 128 117.3 128 104L128 72zM256 2'' @
     ''24C238.3 224 224 238.3 224 256L224 288C224 305.7 238.3 320 256 320L384 320C401.7 320'' @
     '' 416 305.7 416 288L416 256C416 238.3 401.7 224 384 224L256 224zM288 416C288 398.3 27'' @
     ''3.7 384 256 384C238.3 384 224 398.3 224 416C224 433.7 238.3 448 256 448C273.7 448 28'' @
     ''8 433.7 288 416zM384 448C401.7 448 416 433.7 416 416C416 398.3 401.7 384 384 384C366'' @
     ''.3 384 352 398.3 352 416C352 433.7 366.3 448 384 448z"/></svg>''\<close>

text \<open>
  \<open>lineColors\<close>: a plain object filled by one pass over \<open>Object.values(shapesData)\<close>;
  a later shape of the same route name overwrites the colour of an earlier one.
\<close>

definition lineColors :: "Dataset \<Rightarrow> string \<Rightarrow> string option" where
  "lineColors d =
     foldl (\<lambda>colors shape. colors(route_name shape \<mapsto> color shape))
       Map.empty (Object_values (shapesData d))"

section \<open>The Leaflet layers and the drawing functions (sections 7 and 8 of the script)\<close>

record Polyline =
  latlngs :: "real list list"
  polyline_color :: string
  weight :: nat
  opacity :: real
  polyline_popup :: string

record DivIcon =
  html :: string
  className :: string
  iconSize :: "nat \<times> nat"
  iconAnchor :: "nat \<times> nat"

record Marker =
  latlng :: "real \<times> real"
  icon :: DivIcon
  marker_popup :: string

text \<open>
  The calls the script makes on the two layers, in the order it makes them. The map
  library is an external collaborator: a layer is the list of what was added to it since
  it was last cleared.
\<close>

datatype LeafletCall =
  ShapesClearLayers
  | ShapesAdd Polyline
  | MarkersClearLayers
  | MarkersAdd Marker

text \<open>
  The application: the filter refs, the two layer refs (\<open>null\<close> until \<open>initMap\<close> has run)
  and the trace of the calls made on the layers.
\<close>

record App =
  filterState :: FilterState
  markersLayer :: "Marker list option"
  shapesLayer :: "Polyline list option"
  calls :: "LeafletCall list"

definition shapesLayer_clearLayers :: "App \<Rightarrow> App" where
  "shapesLayer_clearLayers app =
     app\<lparr>shapesLayer := map_option (\<lambda>_. []) (shapesLayer app),
         calls := calls app @ [ShapesClearLayers]\<rparr>"

definition shapesLayer_add :: "Polyline \<Rightarrow> App \<Rightarrow> App" where
  "shapesLayer_add p app =
     app\<lparr>shapesLayer := map_option (\<lambda>ps. ps @ [p]) (shapesLayer app),
         calls := calls app @ [ShapesAdd p]\<rparr>"

definition markersLayer_clearLayers :: "App \<Rightarrow> App" where
  "markersLayer_clearLayers app =
     app\<lparr>markersLayer := map_option (\<lambda>_. []) (markersLayer app),
         calls := calls app @ [MarkersClearLayers]\<rparr>"

definition markersLayer_add :: "Marker \<Rightarrow> App \<Rightarrow> App" where
  "markersLayer_add m app =
     app\<lparr>markersLayer := map_option (\<lambda>ms. ms @ [m]) (markersLayer app),
         calls := calls app @ [MarkersAdd m]\<rparr>"

subsection \<open>drawShapes\<close>

definition shapePolyline :: "Shape \<Rightarrow> Polyline" where
  "shapePolyline shape =
     \<lparr>latlngs = points shape, polyline_color = color shape, weight = 3,
      opacity = 6 / 10, polyline_popup = ''Ligne '' @ route_name shape\<rparr>"

text \<open>The body of the \<open>forEach\<close> of \<open>drawShapes\<close>, with its two early returns.\<close>

definition drawShape :: "App \<Rightarrow> Shape \<Rightarrow> App" where
  "drawShape app shape =
     (let fs = filterState app
      in if \<not> showBus fs \<and> \<not> showTram fs then app
         else if selectedLines fs \<noteq> {} \<and> route_name shape \<notin> selectedLines fs then app
         else shapesLayer_add (shapePolyline shape) app)"

definition drawShapes :: "Dataset \<Rightarrow> App \<Rightarrow> App" where
  "drawShapes d app =
     (case shapesLayer app of
        None \<Rightarrow> app
      | Some _ \<Rightarrow> foldl drawShape (shapesLayer_clearLayers app) (Object_values (shapesData d)))"

subsection \<open>drawStops\<close>

text \<open>\<open>colors[line] || '#3b82f6'\<close>: an absent and an empty colour both fall back.\<close>

definition lineColor :: "(string \<Rightarrow> string option) \<Rightarrow> string \<Rightarrow> string" where
  "lineColor colors line =
     (case colors line of
        None \<Rightarrow> ''#3b82f6''
      | Some c \<Rightarrow> if c = [] then ''#3b82f6'' else c)"

definition lineBadge :: "(string \<Rightarrow> string option) \<Rightarrow> string \<Rightarrow> string" where
  \<open>lineBadge colors line =
     ''<span class="popup-line-badge" style="background-color: '' @ lineColor colors line @
     '';">'' @ line @ ''</span>''\<close>

definition linesHtml :: "(string \<Rightarrow> string option) \<Rightarrow> StopMeta option \<Rightarrow> string" where
  "linesHtml colors meta =
     (case meta of
        None \<Rightarrow> []
      | Some m \<Rightarrow> foldl (\<lambda>acc line. acc @ lineBadge colors line) [] (lines m))"

definition accessText :: string where
  "accessText = (let isAccessible = True in if isAccessible then ''Oui'' else ''Non'')"

definition handicapRow :: string where
  \<open>handicapRow =
     ''<div class="popup-row"><strong>Acc'' @
     [CHR 0xC3, CHR 0xA8] @
     ''s handicap'' @
     [CHR 0xC3, CHR 0xA9] @
     '' :</strong> '' @ accessText @ ''</div>''\<close>

definition Commerce :: string where
  "Commerce = ''Commerce''"

definition Vincent_Gache :: string where
  "Vincent_Gache = ''Vincent G'' @
       [CHR 0xC3, CHR 0xA2] @
       ''che''"

definition imageHtml :: "string \<Rightarrow> string" where
  \<open>imageHtml stopName =
     (let image0 = [];
          image1 = (if stopName = Commerce then
              (''<div class="popup-image"><img src="https://i.imgur.com/4GEU71O.png" alt="Commerce St'' @
               ''ation" style="width:100%; height:auto; border-radius:4px; margin-top:10px;"></div>'')
            else image0)
      in if stopName = Vincent_Gache then
           (''<div class="popup-image"><img src="https://i.imgur.com/WbbaBkg.jpeg" alt="Vincent G'' @
            [CHR 0xC3, CHR 0xA2] @
            ''che" style="width:100%; height:auto; border-radius:4px; margin-top:10px;"></div>'')
         else image1)\<close>

definition popupContent :: "string \<Rightarrow> string \<Rightarrow> string \<Rightarrow> string \<Rightarrow> string" where
  \<open>popupContent stopName lh hr ih =
     [CHR 0x0A] @ ''      <div class="custom-popup">'' @
     [CHR 0x0A] @ ''        <div class="popup-header">Nom du station : <strong>'' @ stopName @
          ''</strong></div>'' @
     [CHR 0x0A] @ ''        <div class="popup-body">'' @
     [CHR 0x0A] @ ''          <div class="popup-row">'' @
     [CHR 0x0A] @ ''            <strong>Lignes :</strong>'' @
     [CHR 0x0A] @ ''            <div class="badges-container">'' @ lh @ ''</div>'' @
     [CHR 0x0A] @ ''          </div>'' @
     [CHR 0x0A] @ ''          '' @ hr @
     [CHR 0x0A] @ ''          '' @ ih @
     [CHR 0x0A] @ ''        </div>'' @
     [CHR 0x0A] @ ''      </div>'' @
     [CHR 0x0A] @ ''    ''\<close>

text \<open>Parts A to D of the body of the \<open>forEach\<close> of \<open>drawStops\<close>: the popup of one stop.\<close>

definition buildPopup :: "(string \<Rightarrow> string option) \<Rightarrow> StopMeta option \<Rightarrow> Stop \<Rightarrow> string" where
  "buildPopup colors meta stop =
     popupContent (stop_name stop) (linesHtml colors meta) handicapRow
       (imageHtml (stop_name stop))"

text \<open>Part E: \<open>meta?.is_tram\<close> is \<open>undefined\<close>, hence falsy, for a stop without metadata.\<close>

definition customIcon :: "StopMeta option \<Rightarrow> DivIcon" where
  \<open>customIcon meta =
     (let isTram = (case meta of None \<Rightarrow> False | Some m \<Rightarrow> is_tram m);
          iconSvg = (if isTram then tramSVG else busSVG);
          colorClass = (if isTram then ''icon-tram'' else ''icon-bus'')
      in \<lparr>html = ''<div class="stop-icon-wrapper '' @ colorClass @ ''">'' @ iconSvg @ ''</div>'',
          className = ''custom-fa-icon'', iconSize = (28, 28), iconAnchor = (14, 14)\<rparr>)\<close>

definition stopMarker :: "Dataset \<Rightarrow> (string \<Rightarrow> string option) \<Rightarrow> Stop \<Rightarrow> Marker" where
  "stopMarker d colors stop =
     (let meta = stopsMeta d (stop_id stop)
      in \<lparr>latlng = (stop_lat stop, stop_lon stop), icon = customIcon meta,
          marker_popup = buildPopup colors meta stop\<rparr>)"

definition drawStops :: "Dataset \<Rightarrow> App \<Rightarrow> App" where
  "drawStops d app =
     (case markersLayer app of
        None \<Rightarrow> app
      | Some _ \<Rightarrow>
          (let colors = lineColors d
           in foldl (\<lambda>a stop. markersLayer_add (stopMarker d colors stop) a)
                (markersLayer_clearLayers app) (visibleStops d (filterState app))))"

subsection \<open>Mounting\<close>

definition initialFilterState :: FilterState where
  "initialFilterState =
     \<lparr>showStops = True, showBus = True, showTram = True, showAllLines = False,
      searchQuery = [], selectedLines = {}\<rparr>"

definition initialApp :: App where
  "initialApp =
     \<lparr>filterState = initialFilterState, markersLayer = None, shapesLayer = None, calls = []\<rparr>"

text \<open>
  \<open>initMap\<close> creates the two layers, empty; \<open>mapContainer\<close> says whether the template
  ref of the map element is set.
\<close>

definition initMap :: "bool \<Rightarrow> App \<Rightarrow> App" where
  "initMap mapContainer app =
     (if \<not> mapContainer then app
      else app\<lparr>shapesLayer := Some [], markersLayer := Some []\<rparr>)"

definition onMounted :: "Dataset \<Rightarrow> bool \<Rightarrow> App \<Rightarrow> App" where
  "onMounted d mapContainer app =
     (if mapContainer then drawStops d (drawShapes d (initMap mapContainer app)) else app)"

section \<open>User actions (section 9 of the script and the handlers of the template)\<close>

definition redraw :: "Dataset \<Rightarrow> App \<Rightarrow> App" where
  "redraw d app = drawShapes d (drawStops d app)"

definition toggleStopsMaster :: "Dataset \<Rightarrow> App \<Rightarrow> App" where
  "toggleStopsMaster d app =
     drawStops d
       (app\<lparr>filterState := (filterState app)\<lparr>showStops := \<not> showStops (filterState app)\<rparr>\<rparr>)"

datatype TransportType = Bus | Tram

definition toggleType :: "Dataset \<Rightarrow> TransportType \<Rightarrow> App \<Rightarrow> App" where
  "toggleType d type app =
     (let fs = filterState app;
          fs1 = (if type = Bus then fs\<lparr>showBus := \<not> showBus fs\<rparr> else fs);
          fs2 = (if type = Tram then fs1\<lparr>showTram := \<not> showTram fs1\<rparr> else fs1)
      in redraw d (app\<lparr>filterState := fs2\<rparr>))"

definition toggleLine :: "Dataset \<Rightarrow> string \<Rightarrow> App \<Rightarrow> App" where
  "toggleLine d lineName app =
     (let fs = filterState app;
          fs' = (if lineName \<in> selectedLines fs
                 then fs\<lparr>selectedLines := selectedLines fs - {lineName}\<rparr>
                 else fs\<lparr>selectedLines := insert lineName (selectedLines fs)\<rparr>)
      in redraw d (app\<lparr>filterState := fs'\<rparr>))"

definition clearLineSelection :: "Dataset \<Rightarrow> App \<Rightarrow> App" where
  "clearLineSelection d app =
     redraw d (app\<lparr>filterState := (filterState app)\<lparr>selectedLines := {}\<rparr>\<rparr>)"

text \<open>
  The two mutations written in the template: \<open>v-model="searchQuery"\<close> on the search
  input and \<open>@click="showAllLines = !showAllLines"\<close> on the "show more" link.
\<close>

definition setSearchQuery :: "string \<Rightarrow> App \<Rightarrow> App" where
  "setSearchQuery text app = app\<lparr>filterState := (filterState app)\<lparr>searchQuery := text\<rparr>\<rparr>"

definition toggleShowAllLines :: "App \<Rightarrow> App" where
  "toggleShowAllLines app =
     app\<lparr>filterState := (filterState app)\<lparr>showAllLines := \<not> showAllLines (filterState app)\<rparr>\<rparr>"

datatype Action =
  ToggleStopsMaster
  | ToggleType TransportType
  | ToggleLine string
  | ClearLineSelection
  | SetSearchQuery string
  | ToggleShowAllLines

fun handle :: "Dataset \<Rightarrow> Action \<Rightarrow> App \<Rightarrow> App" where
  "handle d ToggleStopsMaster app = toggleStopsMaster d app"
| "handle d (ToggleType type) app = toggleType d type app"
| "handle d (ToggleLine lineName) app = toggleLine d lineName app"
| "handle d ClearLineSelection app = clearLineSelection d app"
| "handle d (SetSearchQuery text) app = setSearchQuery text app"
| "handle d ToggleShowAllLines app = toggleShowAllLines app"

section \<open>Derived views and auxiliary notions used in the statements\<close>

text \<open>
  The shapes that the loop of \<open>drawShapes\<close> does not skip: neither of its two early
  returns fires.
\<close>

definition shapeKept :: "FilterState \<Rightarrow> Shape \<Rightarrow> bool" where
  "shapeKept fs shape =
     (\<not> (\<not> showBus fs \<and> \<not> showTram fs) \<and>
      \<not> (selectedLines fs \<noteq> {} \<and> route_name shape \<notin> selectedLines fs))"

definition visibleShapes :: "Dataset \<Rightarrow> FilterState \<Rightarrow> Shape list" where
  "visibleShapes d fs = filter (shapeKept fs) (Object_values (shapesData d))"

text \<open>
  The line ids met by the scan of the type-filtered stops, in the order of the scan,
  one entry per occurrence.
\<close>

definition linesOf :: "Dataset \<Rightarrow> Stop \<Rightarrow> string list" where
  "linesOf d stop = (case stopsMeta d (stop_id stop) of None \<Rightarrow> [] | Some meta \<Rightarrow> lines meta)"

definition lineOccurrences :: "Dataset \<Rightarrow> FilterState \<Rightarrow> string list" where
  "lineOccurrences d fs = concat (map (linesOf d) (stopsFilteredByType d fs))"

text \<open>The position of the first occurrence of \<open>x\<close> in \<open>xs\<close> (the length of \<open>xs\<close> if there is none).\<close>

definition firstIndex :: "'a list \<Rightarrow> 'a \<Rightarrow> nat" where
  "firstIndex xs x = length (takeWhile (\<lambda>y. y \<noteq> x) xs)"

text \<open>
  What lower-casing is on ASCII characters, to compare \<open>toLowerCase\<close> with: the letters
  A to Z are lowered and every other character is left as it is.
\<close>

definition asciiLowerCase :: "char \<Rightarrow> char" where
  "asciiLowerCase c =
     (let n = (of_char c :: int)
      in if 0x41 \<le> n \<and> n \<le> 0x5A then char_of (n + 0x20) else c)"

text \<open>The two layers show the derived view of the current filter state.\<close>

definition layersInSync :: "Dataset \<Rightarrow> App \<Rightarrow> bool" where
  "layersInSync d app =
     (markersLayer app =
        Some (map (stopMarker d (lineColors d)) (visibleStops d (filterState app))) \<and>
      shapesLayer app = Some (map shapePolyline (visibleShapes d (filterState app))))"

text \<open>The calls of one run of \<open>drawStops\<close> and of one run of \<open>drawShapes\<close> on initialised layers.\<close>

definition markerCalls :: "Dataset \<Rightarrow> FilterState \<Rightarrow> LeafletCall list" where
  "markerCalls d fs =
     MarkersClearLayers # map (\<lambda>stop. MarkersAdd (stopMarker d (lineColors d) stop)) (visibleStops d fs)"

definition shapeCalls :: "Dataset \<Rightarrow> FilterState \<Rightarrow> LeafletCall list" where
  "shapeCalls d fs =
     ShapesClearLayers # map (\<lambda>shape. ShapesAdd (shapePolyline shape)) (visibleShapes d fs)"

section \<open>Auxiliary notions for the proofs\<close>

text \<open>The count recorded for a line in a lines map, zero if the line is absent.\<close>

definition countOf :: "LinesMap \<Rightarrow> string \<Rightarrow> nat" where
  "countOf m k = (case map_of m k of None \<Rightarrow> 0 | Some c \<Rightarrow> c)"

text \<open>A stop that has metadata of the given mode: the stops that the counters count.\<close>

definition countedAs :: "Dataset \<Rightarrow> bool \<Rightarrow> Stop \<Rightarrow> bool" where
  "countedAs d tram stop = (\<exists>m. stopsMeta d (stop_id stop) = Some m \<and> is_tram m = tram)"

text \<open>
  The ranking of the statistics: a higher count first and, among equal counts, the line
  whose position \<open>pos\<close> is smaller first.
\<close>

definition rankedBefore :: "(string \<Rightarrow> nat) \<Rightarrow> string \<times> nat \<Rightarrow> string \<times> nat \<Rightarrow> bool" where
  "rankedBefore pos a b \<longleftrightarrow> snd b < snd a \<or> (snd a = snd b \<and> pos (fst a) < pos (fst b))"

definition lineRankedBefore :: "string list \<Rightarrow> LineStat \<Rightarrow> LineStat \<Rightarrow> bool" where
  "lineRankedBefore occ a b \<longleftrightarrow>
     count b < count a \<or> (count a = count b \<and> firstIndex occ (name a) < firstIndex occ (name b))"

section \<open>Example data\<close>

text \<open>
  The scenario of the specification: a tram stop on line T1, a bus stop on lines L1 and
  T1, and a third stop that has no metadata entry.
\<close>

definition exStop1 :: Stop where
  "exStop1 = \<lparr>stop_id = ''S1'', stop_name = ''Commerce'', stop_lat = 47, stop_lon = -1\<rparr>"

definition exStop2 :: Stop where
  "exStop2 = \<lparr>stop_id = ''S2'', stop_name = ''Gare'', stop_lat = 48, stop_lon = -2\<rparr>"

definition exStop3 :: Stop where
  "exStop3 = \<lparr>stop_id = ''S3'', stop_name = ''Quai'', stop_lat = 49, stop_lon = -3\<rparr>"

definition exMeta :: "string \<Rightarrow> StopMeta option" where
  "exMeta =
     [''S1'' \<mapsto> \<lparr>is_tram = True, lines = [''T1''], wheelchair = None\<rparr>,
      ''S2'' \<mapsto> \<lparr>is_tram = False, lines = [''L1'', ''T1''], wheelchair = Some False\<rparr>]"

definition exShapeT1 :: Shape where
  "exShapeT1 = \<lparr>route_name = ''T1'', color = ''#00a651'', points = [[47, -1], [48, -2]]\<rparr>"

definition exShapeL1 :: Shape where
  "exShapeL1 = \<lparr>route_name = ''L1'', color = [], points = [[48, -2], [49, -3]]\<rparr>"

definition exData :: Dataset where
  "exData =
     \<lparr>stopsData = [exStop1, exStop2, exStop3], stopsMeta = exMeta,
      shapesData = [(''a'', exShapeT1), (''b'', exShapeL1)]\<rparr>"

definition exApp :: App where
  "exApp = onMounted exData True initialApp"

text \<open>
  One bus stop served by five lines, for the search scenario; the last line is named
  E1 with an acute accent on the capital E (U+00C9).
\<close>

definition exSearchData :: Dataset where
  "exSearchData =
     \<lparr>stopsData = [exStop2],
      stopsMeta = [''S2'' \<mapsto> \<lparr>is_tram = False, lines = [''C1'', ''D3'', ''c2'', ''ABC'', [CHR 0xC3, CHR 0x89] @ ''1''],
                                wheelchair = None\<rparr>],
      shapesData = []\<rparr>"

text \<open>One bus stop served by ten lines, for the truncation scenario.\<close>

definition exTenData :: Dataset where
  "exTenData =
     \<lparr>stopsData = [exStop2],
      stopsMeta = [''S2'' \<mapsto> \<lparr>is_tram = False,
                                lines = [''T1'', ''T2'', ''T3'', ''C1'', ''C2'', ''C3'', ''23'', ''26'', ''54'', ''86''],
                                wheelchair = None\<rparr>],
      shapesData = []\<rparr>"

section \<open>The stop filter\<close>

lemma keepByType_iff:
  "keepByType d fs s \<longleftrightarrow>
     (case stopsMeta d (stop_id s) of None \<Rightarrow> showBus fs
      | Some m \<Rightarrow> if is_tram m then showTram fs else showBus fs)"
  by (simp add: keepByType_def Let_def split: option.splits)

lemma onSelectedLine_iff:
  "onSelectedLine d fs s \<longleftrightarrow>
     (\<exists>m. stopsMeta d (stop_id s) = Some m \<and> set (lines m) \<inter> selectedLines fs \<noteq> {})"
  by (auto simp: onSelectedLine_def list_ex_iff split: option.splits)

text \<open>
  Claim C1. A stop is among the visible stops exactly when it is a stop of the dataset, the
  master switch \<open>showStops\<close> is on, its mode is switched on (tram stops with \<open>showTram\<close>,
  all others, also those without metadata, with \<open>showBus\<close>), and either no line is
  selected or its metadata exists and lists a selected line. In particular there are no
  visible stops when \<open>showStops\<close> is off, whatever the other flags are.
\<close>

theorem visibleStops_characterisation:
  "(s \<in> set (visibleStops d fs) \<longleftrightarrow>
      s \<in> set (stopsData d) \<and> showStops fs \<and>
      (case stopsMeta d (stop_id s) of
         None \<Rightarrow> showBus fs
       | Some m \<Rightarrow> if is_tram m then showTram fs else showBus fs) \<and>
      (selectedLines fs = {} \<or>
       (\<exists>m. stopsMeta d (stop_id s) = Some m \<and> set (lines m) \<inter> selectedLines fs \<noteq> {}))) \<and>
   (\<not> showStops fs \<longrightarrow> visibleStops d fs = [])"
  unfolding visibleStops_def stopsFilteredByType_def Let_def
  using keepByType_iff [of d fs s] onSelectedLine_iff [of d fs s]
  by auto

theorem visibleStops_characterisation_witness:
  "exStop2 \<in> set (visibleStops exData (initialFilterState\<lparr>selectedLines := {''L1''}\<rparr>)) \<and>
   exStop1 \<notin> set (visibleStops exData (initialFilterState\<lparr>selectedLines := {''L1''}\<rparr>)) \<and>
   exStop3 \<in> set (visibleStops exData initialFilterState) \<and>
   \<not> showStops (initialFilterState\<lparr>showStops := False\<rparr>) \<and>
   visibleStops exData (initialFilterState\<lparr>showStops := False\<rparr>) = []"
  using visibleStops_characterisation [of exStop2 exData "initialFilterState\<lparr>selectedLines := {''L1''}\<rparr>"]
    visibleStops_characterisation [of exStop1 exData "initialFilterState\<lparr>selectedLines := {''L1''}\<rparr>"]
    visibleStops_characterisation [of exStop3 exData initialFilterState]
    visibleStops_characterisation [of exStop1 exData "initialFilterState\<lparr>showStops := False\<rparr>"]
  by (simp add: exData_def exMeta_def exStop1_def exStop2_def exStop3_def initialFilterState_def)

section \<open>The drawing functions\<close>

lemma drawShape_step:
  "drawShape app shape =
     (if shapeKept (filterState app) shape then shapesLayer_add (shapePolyline shape) app else app)"
  by (simp add: drawShape_def shapeKept_def Let_def)

lemma foldl_drawShape:
  "foldl drawShape app xs =
     app\<lparr>shapesLayer :=
           map_option (\<lambda>ps. ps @ map shapePolyline (filter (shapeKept (filterState app)) xs))
             (shapesLayer app),
         calls := calls app @
           map (\<lambda>shape. ShapesAdd (shapePolyline shape)) (filter (shapeKept (filterState app)) xs)\<rparr>"
proof (induction xs arbitrary: app)
  case Nil
  show ?case by (simp add: option.map_ident)
next
  case (Cons x xs)
  let ?app = "drawShape app x"
  have "foldl drawShape app (x # xs) =
      ?app\<lparr>shapesLayer :=
             map_option (\<lambda>ps. ps @ map shapePolyline (filter (shapeKept (filterState ?app)) xs))
               (shapesLayer ?app),
           calls := calls ?app @
             map (\<lambda>shape. ShapesAdd (shapePolyline shape))
               (filter (shapeKept (filterState ?app)) xs)\<rparr>"
    by (simp add: Cons.IH)
  also have "\<dots> =
      app\<lparr>shapesLayer :=
            map_option
              (\<lambda>ps. ps @ map shapePolyline (filter (shapeKept (filterState app)) (x # xs)))
              (shapesLayer app),
          calls := calls app @
            map (\<lambda>shape. ShapesAdd (shapePolyline shape))
              (filter (shapeKept (filterState app)) (x # xs))\<rparr>"
    unfolding drawShape_step
    by (cases "shapesLayer app") (simp_all add: shapesLayer_add_def)
  finally show ?case .
qed

lemma drawShapes_eq:
  "drawShapes d app =
     (case shapesLayer app of
        None \<Rightarrow> app
      | Some _ \<Rightarrow>
          app\<lparr>shapesLayer := Some (map shapePolyline (visibleShapes d (filterState app))),
              calls := calls app @ shapeCalls d (filterState app)\<rparr>)"
  by (simp add: drawShapes_def foldl_drawShape shapesLayer_clearLayers_def visibleShapes_def
      shapeCalls_def split: option.splits)

lemma foldl_markersLayer_add:
  "foldl (\<lambda>a stop. markersLayer_add (f stop) a) app xs =
     app\<lparr>markersLayer := map_option (\<lambda>ms. ms @ map f xs) (markersLayer app),
         calls := calls app @ map (\<lambda>stop. MarkersAdd (f stop)) xs\<rparr>"
proof (induction xs arbitrary: app)
  case Nil
  show ?case by (simp add: option.map_ident)
next
  case (Cons x xs)
  have "foldl (\<lambda>a stop. markersLayer_add (f stop) a) app (x # xs) =
      (markersLayer_add (f x) app)
        \<lparr>markersLayer := map_option (\<lambda>ms. ms @ map f xs) (markersLayer (markersLayer_add (f x) app)),
         calls := calls (markersLayer_add (f x) app) @ map (\<lambda>stop. MarkersAdd (f stop)) xs\<rparr>"
    by (simp add: Cons.IH)
  also have "\<dots> =
      app\<lparr>markersLayer := map_option (\<lambda>ms. ms @ map f (x # xs)) (markersLayer app),
          calls := calls app @ map (\<lambda>stop. MarkersAdd (f stop)) (x # xs)\<rparr>"
    by (cases "markersLayer app") (simp_all add: markersLayer_add_def)
  finally show ?case .
qed

lemma drawStops_eq:
  "drawStops d app =
     (case markersLayer app of
        None \<Rightarrow> app
      | Some _ \<Rightarrow>
          app\<lparr>markersLayer :=
                Some (map (stopMarker d (lineColors d)) (visibleStops d (filterState app))),
              calls := calls app @ markerCalls d (filterState app)\<rparr>)"
  by (simp add: drawStops_def Let_def foldl_markersLayer_add markersLayer_clearLayers_def
      markerCalls_def split: option.splits)

lemma shapeKept_iff:
  "shapeKept fs =
     (\<lambda>shape. (showBus fs \<or> showTram fs) \<and>
              (selectedLines fs = {} \<or> route_name shape \<in> selectedLines fs))"
  by (auto simp: shapeKept_def fun_eq_iff)

lemma shapesLayer_initMap: "shapesLayer (initMap True app) = Some []"
  by (simp add: initMap_def)

lemma markersLayer_initMap: "markersLayer (initMap True app) = Some []"
  by (simp add: initMap_def)

lemma onMounted_eq:
  "onMounted d True initialApp =
     \<lparr>filterState = initialFilterState,
      markersLayer = Some (map (stopMarker d (lineColors d)) (visibleStops d initialFilterState)),
      shapesLayer = Some (map shapePolyline (visibleShapes d initialFilterState)),
      calls = shapeCalls d initialFilterState @ markerCalls d initialFilterState\<rparr>"
  by (simp add: onMounted_def drawStops_eq drawShapes_eq initMap_def initialApp_def)

text \<open>
  Claim C2. \<open>drawShapes\<close> puts on the shapes layer exactly the shapes for which: not both
  mode flags are off, and either no line is selected or the shape's route name is
  selected. In particular, with the bus flag off, the tram flag on and no selection, every
  shape is drawn, whatever its route name: the shape filter does not split by mode.
\<close>

theorem drawShapes_shape_filter:
  "(shapesLayer app \<noteq> None \<longrightarrow>
      shapesLayer (drawShapes d app) =
        Some (map shapePolyline
          (filter (\<lambda>shape. (showBus (filterState app) \<or> showTram (filterState app)) \<and>
                           (selectedLines (filterState app) = {} \<or>
                            route_name shape \<in> selectedLines (filterState app)))
             (Object_values (shapesData d))))) \<and>
   (shapesLayer app \<noteq> None \<and> \<not> showBus (filterState app) \<and> showTram (filterState app) \<and>
    selectedLines (filterState app) = {} \<longrightarrow>
      shapesLayer (drawShapes d app) = Some (map shapePolyline (Object_values (shapesData d))))"
  by (auto simp: drawShapes_eq visibleShapes_def shapeKept_iff)

theorem drawShapes_shape_filter_witness:
  "shapesLayer (initMap True initialApp\<lparr>filterState := initialFilterState\<lparr>showBus := False\<rparr>\<rparr>) \<noteq> None \<and>
   \<not> showBus (initialFilterState\<lparr>showBus := False\<rparr>) \<and>
   showTram (initialFilterState\<lparr>showBus := False\<rparr>) \<and>
   selectedLines (initialFilterState\<lparr>showBus := False\<rparr>) = {} \<and>
   shapesLayer
     (drawShapes exData (initMap True initialApp\<lparr>filterState := initialFilterState\<lparr>showBus := False\<rparr>\<rparr>)) =
     Some [shapePolyline exShapeT1, shapePolyline exShapeL1]"
  using drawShapes_shape_filter
    [of "initMap True initialApp\<lparr>filterState := initialFilterState\<lparr>showBus := False\<rparr>\<rparr>" exData]
  by (simp add: initMap_def initialApp_def initialFilterState_def exData_def Object_values_def)

text \<open>
  Claim C10. The visible shapes depend on the filter state only through \<open>showBus\<close>,
  \<open>showTram\<close> and \<open>selectedLines\<close>: two filter states that agree on these three give the
  same visible shapes and the same shapes layer after \<open>drawShapes\<close>, however they differ
  in \<open>showStops\<close>, \<open>searchQuery\<close> and \<open>showAllLines\<close>. The master switch handler leaves the
  shapes layer as it is.
\<close>

theorem visibleShapes_independent:
  "(showBus fs = showBus fs' \<and> showTram fs = showTram fs' \<and> selectedLines fs = selectedLines fs'
      \<longrightarrow> visibleShapes d fs = visibleShapes d fs' \<and>
          shapesLayer (drawShapes d (app\<lparr>filterState := fs\<rparr>)) =
          shapesLayer (drawShapes d (app\<lparr>filterState := fs'\<rparr>))) \<and>
   shapesLayer (toggleStopsMaster d app) = shapesLayer app"
proof -
  have "shapeKept fs = shapeKept fs'"
    if "showBus fs = showBus fs'" "showTram fs = showTram fs'" "selectedLines fs = selectedLines fs'"
    using that by (simp add: shapeKept_iff)
  then have "visibleShapes d fs = visibleShapes d fs'"
    if "showBus fs = showBus fs'" "showTram fs = showTram fs'" "selectedLines fs = selectedLines fs'"
    using that by (simp add: visibleShapes_def)
  moreover have "shapesLayer (drawShapes d (app\<lparr>filterState := fs\<rparr>)) =
      shapesLayer (drawShapes d (app\<lparr>filterState := fs'\<rparr>))"
    if "visibleShapes d fs = visibleShapes d fs'"
    using that by (simp add: drawShapes_eq split: option.splits)
  moreover have "shapesLayer (toggleStopsMaster d app) = shapesLayer app"
    by (simp add: toggleStopsMaster_def drawStops_eq split: option.splits)
  ultimately show ?thesis by blast
qed

theorem visibleShapes_independent_witness:
  "visibleShapes exData initialFilterState =
     visibleShapes exData
       (initialFilterState\<lparr>showStops := False, searchQuery := ''c'', showAllLines := True\<rparr>) \<and>
   shapesLayer (drawShapes exData (exApp\<lparr>filterState := initialFilterState\<rparr>)) =
     shapesLayer
       (drawShapes exData
          (exApp\<lparr>filterState :=
             initialFilterState\<lparr>showStops := False, searchQuery := ''c'', showAllLines := True\<rparr>\<rparr>)) \<and>
   shapesLayer (toggleStopsMaster exData exApp) = shapesLayer exApp"
  using visibleShapes_independent
    [of initialFilterState
        "initialFilterState\<lparr>showStops := False, searchQuery := ''c'', showAllLines := True\<rparr>"
        exData exApp]
  by simp

section \<open>The string builtins\<close>


lemma encodeCodePoint_nonempty: "encodeCodePoint c \<noteq> []"
  by (simp add: encodeCodePoint_def)

lemma encodeItem_nonempty: "encodeItem x \<noteq> []"
  by (cases x) (simp_all add: encodeCodePoint_nonempty)

lemma fromCodePoints_Nil_iff: "fromCodePoints xs = [] \<longleftrightarrow> xs = []"
  by (cases xs) (simp_all add: fromCodePoints_def encodeItem_nonempty)

lemma leadLength_pos: "0 < leadLength b"
  by (simp add: leadLength_def Let_def)

lemma fromCodePoints_toCodePoints: "fromCodePoints (toCodePoints s) = s"
proof (induction s rule: toCodePoints.induct)
  case 1
  show ?case by (simp add: fromCodePoints_def)
next
  case (2 b bs)
  show ?case
  proof (cases "wellFormedAt (b # bs)")
    case True
    then have enc: "encodeCodePoint (decodeBytes (take (leadLength b) (b # bs))) =
        take (leadLength b) (b # bs)"
      by (simp add: wellFormedAt_def)
    obtain k where k: "leadLength b = Suc k"
      using leadLength_pos [of b] by (cases "leadLength b") simp_all
    from 2(1) [OF True] have "concat (map encodeItem (toCodePoints (drop k bs))) = drop k bs"
      by (simp add: k fromCodePoints_def)
    with True enc show ?thesis by (simp add: fromCodePoints_def k)
  next
    case False
    with 2(2) show ?thesis by (simp add: fromCodePoints_def)
  qed
qed

lemma trim_empty: "trim [] = []"
  by (simp add: trim_def fromCodePoints_def)

lemma trim_Nil_iff: "trim s = [] \<longleftrightarrow> (\<forall>x \<in> set (toCodePoints s). isWhiteSpace x)"
proof -
  let ?xs = "toCodePoints s"
  have "dropWhile isWhiteSpace (rev (dropWhile isWhiteSpace ?xs)) = [] \<longleftrightarrow>
      dropWhile isWhiteSpace ?xs = []"
  proof (cases "dropWhile isWhiteSpace ?xs")
    case Nil
    then show ?thesis by (simp only: Nil) simp
  next
    case (Cons y ys)
    then have "\<not> isWhiteSpace y" using hd_dropWhile [of isWhiteSpace ?xs] by simp
    moreover have "y \<in> set (rev (dropWhile isWhiteSpace ?xs))"
      by (simp only: Cons set_rev list.set_intros)
    ultimately have "dropWhile isWhiteSpace (rev (dropWhile isWhiteSpace ?xs)) \<noteq> []"
      unfolding dropWhile_eq_Nil_conv by blast
    moreover have "dropWhile isWhiteSpace ?xs \<noteq> []"
      by (simp only: Cons) simp
    ultimately show ?thesis by blast
  qed
  moreover have "trim s = [] \<longleftrightarrow>
      dropWhile isWhiteSpace (rev (dropWhile isWhiteSpace ?xs)) = []"
    by (simp add: trim_def fromCodePoints_Nil_iff)
  ultimately have "trim s = [] \<longleftrightarrow> dropWhile isWhiteSpace ?xs = []"
    by simp
  then show ?thesis by (simp only: dropWhile_eq_Nil_conv)
qed

lemma trim_nonempty: "trim s \<noteq> [] \<Longrightarrow> s \<noteq> []"
  using trim_empty by auto

subsection \<open>Lower-casing on the ASCII range\<close>

lemma toCodePoints_ascii:
  "\<forall>c \<in> set s. (of_char c :: int) < 0x80 \<Longrightarrow> toCodePoints s = map (\<lambda>c. CodePoint (of_char c)) s"
proof (induction s)
  case Nil
  show ?case by simp
next
  case (Cons b bs)
  then have b: "(of_char b :: int) < 0x80" by simp
  then have len: "leadLength b = 1" by (simp add: leadLength_def Let_def)
  have "encodeCodePoint (of_char b) = [b]" using b by (simp add: encodeCodePoint_def)
  then have "wellFormedAt (b # bs)" by (simp add: wellFormedAt_def len)
  with Cons len show ?case by simp
qed


lemma lowerCaseTable_head: "hd lowerCaseTable = (0x41, 0x5A, 1, 0x61)"
  by (simp add: lowerCaseTable_def)

lemma lowerCaseTable_tail: "list_all (\<lambda>(lo, hi, step, target). 0x80 \<le> lo) (tl lowerCaseTable)"
  by code_simp

lemma lowerCaseTable_split: "lowerCaseTable = hd lowerCaseTable # tl lowerCaseTable"
  by (simp add: lowerCaseTable_def)

lemma tail_lo: "(lo, hi, step, target) \<in> set (tl lowerCaseTable) \<Longrightarrow> 0x80 \<le> lo"
  using lowerCaseTable_tail unfolding list_all_iff by fast

lemma find_tail:
  assumes "c < 0x80"
  shows "find (entryApplies c) (tl lowerCaseTable) = None"
proof -
  have "\<not> entryApplies c e" if "e \<in> set (tl lowerCaseTable)" for e
  proof -
    obtain lo hi step target where e: "e = (lo, hi, step, target)" by (cases e) auto
    with that have "0x80 \<le> lo" using tail_lo by simp
    with assms e show ?thesis by simp
  qed
  then show ?thesis unfolding find_None_iff by blast
qed

lemma lowerCaseMapping_ascii:
  assumes "c < 0x80"
  shows "lowerCaseMapping c = (if 0x41 \<le> c \<and> c \<le> 0x5A then c + 0x20 else c)"
proof -
  have "find (entryApplies c) lowerCaseTable =
      find (entryApplies c) (hd lowerCaseTable # tl lowerCaseTable)"
    using lowerCaseTable_split by simp
  also have "\<dots> = (if 0x41 \<le> c \<and> c \<le> 0x5A then Some (0x41, 0x5A, 1, 0x61) else None)"
    by (simp add: lowerCaseTable_head find_tail [OF assms])
  finally show ?thesis by (simp add: lowerCaseMapping_def)
qed

lemma of_char_asciiLowerCase:
  "(of_char c :: int) < 0x80 \<Longrightarrow>
   (of_char (asciiLowerCase c) :: int) =
     (if 0x41 \<le> (of_char c :: int) \<and> (of_char c :: int) \<le> 0x5A then of_char c + 0x20 else of_char c)"
  by (simp add: asciiLowerCase_def Let_def)

lemma lowerCaseItems_ascii:
  "\<forall>c \<in> set s. (of_char c :: int) < 0x80 \<Longrightarrow>
   lowerCaseItems pre (map (\<lambda>c. CodePoint (of_char c)) s) =
     map (\<lambda>c. CodePoint (of_char (asciiLowerCase c))) s"
proof (induction s arbitrary: pre)
  case Nil
  show ?case by simp
next
  case (Cons b bs)
  then have b: "(of_char b :: int) < 0x80" by simp
  then have "lowerCaseItem pre (CodePoint (of_char b)) (map (\<lambda>c. CodePoint (of_char c)) bs) =
      [CodePoint (of_char (asciiLowerCase b))]"
    by (simp add: lowerCaseMapping_ascii of_char_asciiLowerCase)
  with Cons show ?case by simp
qed

lemma toLowerCase_ascii:
  assumes "\<forall>c \<in> set s. (of_char c :: int) < 0x80"
  shows "toLowerCase s = map asciiLowerCase s"
proof -
  have "encodeItem (CodePoint (of_char (asciiLowerCase c))) = [asciiLowerCase c]"
    if "(of_char c :: int) < 0x80" for c
    using that by (simp add: encodeCodePoint_def asciiLowerCase_def Let_def)
  then have "concat (map (\<lambda>c. encodeItem (CodePoint (of_char (asciiLowerCase c)))) s) =
      map asciiLowerCase s"
    using assms by (induction s) simp_all
  moreover have "toLowerCase s =
      fromCodePoints (map (\<lambda>c. CodePoint (of_char (asciiLowerCase c))) s)"
    using assms by (simp only: toLowerCase_def toCodePoints_ascii lowerCaseItems_ascii)
  ultimately show ?thesis by (simp add: fromCodePoints_def comp_def)
qed

section \<open>The line statistics\<close>

subsection \<open>The insertion-ordered map\<close>

lemma map_of_Map_set: "map_of (Map_set m k v) = (map_of m)(k \<mapsto> v)"
  by (induction m k v rule: Map_set.induct) auto

lemma map_fst_Map_set:
  "map fst (Map_set m k v) = (if k \<in> fst ` set m then map fst m else map fst m @ [k])"
  by (induction m k v rule: Map_set.induct) auto


lemma countOf_countLine:
  "countOf (countLine m x) k = countOf m k + (if x = k then 1 else 0)"
  by (simp add: countOf_def countLine_def Map_get_def map_of_Map_set)

lemma map_fst_countLine:
  "map fst (countLine m x) = (if x \<in> fst ` set m then map fst m else map fst m @ [x])"
  by (simp add: countLine_def map_fst_Map_set)

lemma countOf_foldl:
  "countOf (foldl countLine m xs) k = countOf m k + count_list xs k"
  by (induction xs arbitrary: m) (auto simp: countOf_countLine)

lemma keys_foldl:
  "fst ` set (foldl countLine m xs) = fst ` set m \<union> set xs"
proof (induction xs arbitrary: m)
  case Nil
  show ?case by simp
next
  case (Cons x xs)
  have "fst ` set (countLine m x) = insert x (fst ` set m)"
    using map_fst_countLine [of m x, THEN arg_cong, of set] by (auto simp: image_iff)
  then show ?case by (simp add: Cons.IH)
qed

lemma distinct_foldl:
  "distinct (map fst m) \<Longrightarrow> distinct (map fst (foldl countLine m xs))"
proof (induction xs arbitrary: m)
  case Nil
  then show ?case by simp
next
  case (Cons x xs)
  have "distinct (map fst (countLine m x))"
    using Cons.prems by (auto simp: map_fst_countLine)
  then show ?case by (simp add: Cons.IH)
qed

lemma firstIndex_append:
  "firstIndex (xs @ ys) k =
     (if k \<in> set xs then firstIndex xs k else length xs + firstIndex ys k)"
  by (induction xs) (auto simp: firstIndex_def)

lemma firstIndex_less: "k \<in> set xs \<Longrightarrow> firstIndex xs k < length xs"
  by (induction xs) (auto simp: firstIndex_def)

lemma order_foldl:
  "sorted_wrt (\<lambda>a b. firstIndex xs (fst a) < firstIndex xs (fst b)) (foldl countLine [] xs)"
proof (induction xs rule: rev_induct)
  case Nil
  show ?case by simp
next
  case (snoc x xs)
  let ?m = "foldl countLine [] xs"
  let ?pos = "\<lambda>e. firstIndex (xs @ [x]) (fst e)"
  have keys: "fst ` set ?m = set xs" using keys_foldl [of "[]" xs] by simp
  have same: "?pos e = firstIndex xs (fst e)" if "e \<in> set ?m" for e
  proof -
    from that have "fst e \<in> set xs" using keys by force
    then show ?thesis by (simp add: firstIndex_append)
  qed
  have old: "sorted_wrt (\<lambda>a b. ?pos a < ?pos b) ?m"
    by (rule sorted_wrt_mono_rel [OF _ snoc.IH]) (simp add: same)
  show ?case
  proof (cases "x \<in> set xs")
    case True
    then have "map fst (countLine ?m x) = map fst ?m"
      by (simp add: map_fst_countLine keys)
    moreover have "sorted_wrt (\<lambda>a b. firstIndex (xs @ [x]) a < firstIndex (xs @ [x]) b) (map fst ?m)"
      using old by (simp add: sorted_wrt_map)
    ultimately have "sorted_wrt (\<lambda>a b. firstIndex (xs @ [x]) a < firstIndex (xs @ [x]) b)
        (map fst (countLine ?m x))"
      by simp
    then show ?thesis by (simp add: sorted_wrt_map)
  next
    case False
    then have m: "map fst (countLine ?m x) = map fst ?m @ [x]"
      by (simp add: map_fst_countLine keys)
    have last: "firstIndex (xs @ [x]) k < firstIndex (xs @ [x]) x" if "k \<in> set xs" for k
    proof -
      have "firstIndex [x] x = 0" by (simp add: firstIndex_def)
      then have "firstIndex (xs @ [x]) x = length xs"
        using False by (simp add: firstIndex_append)
      moreover have "firstIndex (xs @ [x]) k = firstIndex xs k"
        using that by (simp add: firstIndex_append)
      ultimately show ?thesis using firstIndex_less [OF that] by simp
    qed
    have "sorted_wrt (\<lambda>a b. firstIndex (xs @ [x]) a < firstIndex (xs @ [x]) b) (map fst ?m @ [x])"
      using old keys last by (auto simp: sorted_wrt_map sorted_wrt_append)
    then have "sorted_wrt (\<lambda>a b. firstIndex (xs @ [x]) a < firstIndex (xs @ [x]) b)
        (map fst (countLine ?m x))"
      by (simp add: m)
    then show ?thesis by (simp add: sorted_wrt_map)
  qed
qed

subsection \<open>The stable sort\<close>

lemma set_insertBy: "set (insertBy cmp x ys) = insert x (set ys)"
  by (induction ys) auto

lemma set_Array_sort: "set (Array_sort cmp xs) = set xs"
  by (induction xs) (auto simp: set_insertBy)

lemma length_insertBy: "length (insertBy cmp x ys) = Suc (length ys)"
  by (induction ys) auto

lemma length_Array_sort: "length (Array_sort cmp xs) = length xs"
  by (induction xs) (auto simp: length_insertBy)

lemma distinct_insertBy: "distinct (map f (insertBy cmp x ys)) = distinct (map f (x # ys))"
  by (induction ys) (auto simp: set_insertBy)

lemma distinct_Array_sort: "distinct (map f (Array_sort cmp xs)) = distinct (map f xs)"
  by (induction xs) (auto simp: distinct_insertBy set_Array_sort)


lemma insertBy_ranked:
  assumes "sorted_wrt (rankedBefore pos) ys" and "\<forall>y \<in> set ys. pos (fst x) < pos (fst y)"
  shows "sorted_wrt (rankedBefore pos) (insertBy byPopularity x ys)"
  using assms
proof (induction ys)
  case Nil
  show ?case by simp
next
  case (Cons y ys)
  show ?case
  proof (cases "byPopularity x y \<le> 0")
    case True
    then have xy: "snd y \<le> snd x" by (simp add: byPopularity_def)
    have "rankedBefore pos x z" if "z \<in> set (y # ys)" for z
    proof -
      have "snd z \<le> snd y" using that Cons.prems(1) by (auto simp: rankedBefore_def)
      moreover have "pos (fst x) < pos (fst z)" using that Cons.prems(2) by auto
      ultimately show ?thesis using xy by (auto simp: rankedBefore_def)
    qed
    with True Cons.prems(1) show ?thesis by simp
  next
    case False
    then have "rankedBefore pos y x" by (simp add: byPopularity_def rankedBefore_def)
    moreover have "sorted_wrt (rankedBefore pos) (insertBy byPopularity x ys)"
      using Cons by simp
    ultimately show ?thesis using False Cons.prems(1) by (auto simp: set_insertBy)
  qed
qed

lemma Array_sort_ranked:
  "sorted_wrt (\<lambda>a b. pos (fst a) < pos (fst b)) xs \<Longrightarrow>
   sorted_wrt (rankedBefore pos) (Array_sort byPopularity xs)"
proof (induction xs)
  case Nil
  show ?case by simp
next
  case (Cons x xs)
  then show ?case by (auto intro!: insertBy_ranked simp: set_Array_sort)
qed

subsection \<open>The aggregation loop\<close>


lemma aggregateStop_step:
  "aggregateStop d (b, t, m) x =
     (b + (if countedAs d False x then 1 else 0),
      t + (if countedAs d True x then 1 else 0),
      foldl countLine m (linesOf d x))"
  by (cases "stopsMeta d (stop_id x)") (simp_all add: aggregateStop_def countedAs_def linesOf_def)

lemma foldl_aggregateStop:
  "foldl (aggregateStop d) (b, t, m) xs =
     (b + length (filter (countedAs d False) xs),
      t + length (filter (countedAs d True) xs),
      foldl countLine m (concat (map (linesOf d) xs)))"
proof (induction xs arbitrary: b t m)
  case Nil
  show ?case by simp
next
  case (Cons x xs)
  show ?case by (simp add: aggregateStop_step Cons.IH)
qed

lemma aggregate_eq:
  "aggregate d fs =
     (length (filter (countedAs d False) (stopsFilteredByType d fs)),
      length (filter (countedAs d True) (stopsFilteredByType d fs)),
      foldl countLine [] (lineOccurrences d fs))"
  by (simp add: aggregate_def foldl_aggregateStop lineOccurrences_def)

lemma sortedLines_eq:
  "sortedLines d fs =
     map toLineStat (Array_sort byPopularity (foldl countLine [] (lineOccurrences d fs)))"
  by (simp add: sortedLines_def aggregate_eq)

lemma stats_eq:
  "stats d fs =
     \<lparr>busCount = length (filter (countedAs d False) (stopsFilteredByType d fs)),
      tramCount = length (filter (countedAs d True) (stopsFilteredByType d fs)),
      displayedLines =
        (if showAllLines fs \<or> searchQuery fs \<noteq> [] then searchedLines d fs
         else take 6 (searchedLines d fs)),
      totalLines = length (searchedLines d fs)\<rparr>"
  by (simp add: stats_def aggregate_eq Let_def)

lemma entry_count:
  assumes "e \<in> set (foldl countLine [] occ)"
  shows "snd e = count_list occ (fst e)"
proof -
  let ?m = "foldl countLine [] occ"
  have "distinct (map fst ?m)" by (rule distinct_foldl) simp
  with assms have "map_of ?m (fst e) = Some (snd e)" by simp
  then have "countOf ?m (fst e) = snd e" by (simp add: countOf_def)
  moreover have "countOf [] (fst e) = 0" by (simp add: countOf_def)
  ultimately show ?thesis using countOf_foldl [of "[]" occ "fst e"] by simp
qed

lemma name_toLineStat: "name (toLineStat e) = fst e"
  by (cases e) (simp add: toLineStat_def)

lemma count_toLineStat: "count (toLineStat e) = snd e"
  by (cases e) (simp add: toLineStat_def)

lemma sortedLines_counts:
  "l \<in> set (sortedLines d fs) \<Longrightarrow> count l = count_list (lineOccurrences d fs) (name l)"
  by (auto simp: sortedLines_eq set_Array_sort name_toLineStat count_toLineStat
      dest: entry_count)

lemma sortedLines_names: "name ` set (sortedLines d fs) = set (lineOccurrences d fs)"
proof -
  have "name ` set (sortedLines d fs) = fst ` set (foldl countLine [] (lineOccurrences d fs))"
    by (simp add: sortedLines_eq set_Array_sort image_image name_toLineStat)
  then show ?thesis by (simp add: keys_foldl)
qed

lemma sortedLines_distinct: "distinct (map name (sortedLines d fs))"
proof -
  have "map name (sortedLines d fs) =
      map fst (Array_sort byPopularity (foldl countLine [] (lineOccurrences d fs)))"
    by (simp add: sortedLines_eq name_toLineStat)
  moreover have "distinct (map fst (foldl countLine [] (lineOccurrences d fs)))"
    by (rule distinct_foldl) simp
  ultimately show ?thesis by (simp add: distinct_Array_sort)
qed

lemma sortedLines_length: "length (sortedLines d fs) = card (set (lineOccurrences d fs))"
proof -
  have "length (sortedLines d fs) = length (map name (sortedLines d fs))" by simp
  also have "\<dots> = card (set (map name (sortedLines d fs)))"
    using sortedLines_distinct [of d fs] by (simp only: distinct_card)
  also have "\<dots> = card (set (lineOccurrences d fs))"
    using sortedLines_names [of d fs] by simp
  finally show ?thesis .
qed


lemma sortedLines_ranked:
  "sorted_wrt (lineRankedBefore (lineOccurrences d fs)) (sortedLines d fs)"
proof -
  let ?occ = "lineOccurrences d fs"
  let ?sorted = "Array_sort byPopularity (foldl countLine [] ?occ)"
  have ranked: "sorted_wrt (rankedBefore (firstIndex ?occ)) ?sorted"
    by (rule Array_sort_ranked) (rule order_foldl)
  have "sorted_wrt (\<lambda>x y. lineRankedBefore ?occ (toLineStat x) (toLineStat y)) ?sorted"
    by (rule sorted_wrt_mono_rel [OF _ ranked])
       (simp add: rankedBefore_def lineRankedBefore_def name_toLineStat count_toLineStat)
  then show ?thesis by (simp add: sortedLines_eq sorted_wrt_map)
qed

lemma searchedLines_filter:
  "\<exists>P. searchedLines d fs = filter P (sortedLines d fs)"
proof (cases "trim (searchQuery fs) \<noteq> []")
  case True
  then show ?thesis by (auto simp: searchedLines_def Let_def)
next
  case False
  then have "searchedLines d fs = filter (\<lambda>_. True) (sortedLines d fs)"
    by (simp add: searchedLines_def)
  then show ?thesis by blast
qed

lemma displayedLines_sub:
  "\<exists>P n. displayedLines (stats d fs) = take n (filter P (sortedLines d fs))"
proof -
  obtain P where P: "searchedLines d fs = filter P (sortedLines d fs)"
    using searchedLines_filter by blast
  show ?thesis
  proof (cases "showAllLines fs \<or> searchQuery fs \<noteq> []")
    case True
    then have "displayedLines (stats d fs) = take (length (sortedLines d fs)) (filter P (sortedLines d fs))"
      by (simp add: stats_eq P)
    then show ?thesis by blast
  next
    case False
    then have "displayedLines (stats d fs) = take 6 (filter P (sortedLines d fs))"
      by (simp add: stats_eq P)
    then show ?thesis by blast
  qed
qed

lemma displayedLines_subset: "set (displayedLines (stats d fs)) \<subseteq> set (sortedLines d fs)"
proof -
  obtain P n where "displayedLines (stats d fs) = take n (filter P (sortedLines d fs))"
    using displayedLines_sub by blast
  then show ?thesis by (auto dest: in_set_takeD)
qed

lemma displayedLines_ranked:
  "sorted_wrt (lineRankedBefore (lineOccurrences d fs)) (displayedLines (stats d fs))"
proof -
  obtain P n where "displayedLines (stats d fs) = take n (filter P (sortedLines d fs))"
    using displayedLines_sub by blast
  then show ?thesis
    using sortedLines_ranked [of d fs] by (simp add: sorted_wrt_take sorted_wrt_filter)
qed

lemma stopsFilteredByType_cong:
  "stopsFilteredByType d (fs\<lparr>selectedLines := sel, showStops := vis\<rparr>) = stopsFilteredByType d fs"
  by (simp add: stopsFilteredByType_def keepByType_def cong: filter_cong)

lemma stats_ignores_selection:
  "stats d (fs\<lparr>selectedLines := sel, showStops := vis\<rparr>) = stats d fs"
  by (simp add: stats_def searchedLines_def sortedLines_def aggregate_def stopsFilteredByType_cong)

text \<open>
  Claim C3. The statistics are computed from the type-filtered stops alone: changing
  \<open>selectedLines\<close> (or \<open>showStops\<close>) does not change them. Every displayed entry carries
  as its count the number of occurrences of its line in the line lists of the
  type-filtered stops. The displayed list is ordered by count, highest first, and
  entries of equal count are in the order in which their lines first occur in the scan
  of the type-filtered stops. When nothing is searched and all lines are shown, every
  line met by the scan has an entry.
\<close>

theorem lineStats_sorted_stable:
  "stats d (fs\<lparr>selectedLines := sel, showStops := vis\<rparr>) = stats d fs \<and>
   (\<forall>l \<in> set (displayedLines (stats d fs)).
      count l = count_list (lineOccurrences d fs) (name l)) \<and>
   sorted_wrt
     (\<lambda>a b. count b < count a \<or>
            (count a = count b \<and>
             firstIndex (lineOccurrences d fs) (name a) < firstIndex (lineOccurrences d fs) (name b)))
     (displayedLines (stats d fs)) \<and>
   (showAllLines fs \<and> trim (searchQuery fs) = [] \<longrightarrow>
      name ` set (displayedLines (stats d fs)) = set (lineOccurrences d fs))"
proof -
  have "count l = count_list (lineOccurrences d fs) (name l)"
    if "l \<in> set (displayedLines (stats d fs))" for l
    using that displayedLines_subset [of d fs] by (auto intro: sortedLines_counts)
  moreover have "name ` set (displayedLines (stats d fs)) = set (lineOccurrences d fs)"
    if "showAllLines fs" "trim (searchQuery fs) = []"
    using that by (simp add: stats_eq searchedLines_def sortedLines_names)
  ultimately show ?thesis
    using displayedLines_ranked [of d fs] stats_ignores_selection [where d = d and fs = fs and sel = sel and vis = vis]
    unfolding lineRankedBefore_def by blast
qed

theorem lineStats_sorted_stable_witness:
  "\<lparr>name = ''T1'', count = 2\<rparr> \<in> set (displayedLines (stats exData (initialFilterState\<lparr>showAllLines := True\<rparr>))) \<and>
   count_list (lineOccurrences exData (initialFilterState\<lparr>showAllLines := True\<rparr>)) ''T1'' = 2 \<and>
   showAllLines (initialFilterState\<lparr>showAllLines := True\<rparr>) \<and>
   trim (searchQuery (initialFilterState\<lparr>showAllLines := True\<rparr>)) = [] \<and>
   set (lineOccurrences exData (initialFilterState\<lparr>showAllLines := True\<rparr>)) = {''T1'', ''L1''} \<and>
   stats exData (initialFilterState\<lparr>showAllLines := True, selectedLines := {''L1''}, showStops := False\<rparr>) =
     stats exData (initialFilterState\<lparr>showAllLines := True\<rparr>)"
proof -
  let ?fs = "initialFilterState\<lparr>showAllLines := True\<rparr>"
  have shown: "displayedLines (stats exData ?fs) =
      [\<lparr>name = ''T1'', count = 2\<rparr>, \<lparr>name = ''L1'', count = 1\<rparr>]"
    by code_simp
  have flags: "showAllLines ?fs" "trim (searchQuery ?fs) = []"
    by (simp_all add: initialFilterState_def trim_empty)
  note inst = lineStats_sorted_stable [where d = exData and fs = ?fs and sel = "{''L1''}" and vis = False]
  from inst have "\<forall>l \<in> set (displayedLines (stats exData ?fs)).
      count l = count_list (lineOccurrences exData ?fs) (name l)"
    by blast
  then have "count_list (lineOccurrences exData ?fs) ''T1'' = 2"
    by (simp add: shown)
  moreover from inst flags have "name ` set (displayedLines (stats exData ?fs)) =
      set (lineOccurrences exData ?fs)"
    by blast
  then have "set (lineOccurrences exData ?fs) = {''T1'', ''L1''}"
    by (simp add: shown)
  moreover from inst have "stats exData (?fs\<lparr>selectedLines := {''L1''}, showStops := False\<rparr>) =
      stats exData ?fs"
    by blast
  ultimately show ?thesis using flags by (simp add: shown)
qed

section \<open>Search and truncation of the line list\<close>

lemma String_startsWith_iff: "String_startsWith s q \<longleftrightarrow> (\<exists>r. s = q @ r)"
  by (induction s q rule: String_startsWith.induct) auto

lemma String_includes_iff: "String_includes s q \<longleftrightarrow> (\<exists>p r. s = p @ q @ r)"
proof (induction s)
  case Nil
  show ?case by (cases q) simp_all
next
  case (Cons c cs)
  have "(\<exists>p r. c # cs = p @ q @ r) \<longleftrightarrow> (\<exists>r. c # cs = q @ r) \<or> (\<exists>p r. cs = p @ q @ r)"
  proof
    assume "\<exists>p r. c # cs = p @ q @ r"
    then obtain p r where pr: "c # cs = p @ q @ r" by blast
    show "(\<exists>r. c # cs = q @ r) \<or> (\<exists>p r. cs = p @ q @ r)"
    proof (cases p)
      case Nil
      with pr show ?thesis by auto
    next
      case (Cons a p')
      with pr have "cs = p' @ q @ r" by simp
      then show ?thesis by blast
    qed
  next
    assume "(\<exists>r. c # cs = q @ r) \<or> (\<exists>p r. cs = p @ q @ r)"
    then show "\<exists>p r. c # cs = p @ q @ r"
    proof
      assume "\<exists>r. c # cs = q @ r"
      then obtain r where "c # cs = [] @ q @ r" by auto
      then show ?thesis by blast
    next
      assume "\<exists>p r. cs = p @ q @ r"
      then obtain p r where "c # cs = (c # p) @ q @ r" by auto
      then show ?thesis by blast
    qed
  qed
  then show ?case by (simp add: Cons.IH String_startsWith_iff)
qed

lemma filter_includes:
  "filter (\<lambda>l. \<exists>p r. toLowerCase (name l) = p @ q @ r) ls =
     filter (\<lambda>l. String_includes (toLowerCase (name l)) q) ls"
  by (simp add: String_includes_iff)

text \<open>
  Claim C4, as the code has it. The search filter is guarded by the trimmed query, and the
  trimmed query is empty exactly when every code point of \<open>searchQuery\<close> is white space
  (or there is none). When \<open>searchQuery\<close> has a code point that is not white space, the
  displayed entries are exactly the entries whose lower-cased name contains the
  lower-cased \<open>searchQuery\<close> (untrimmed) as a substring, in the order of the sorted list
  and uncapped; when \<open>searchQuery\<close> is empty or blank, no search filter is applied. On
  strings of ASCII characters the lower-casing is the lowering of the letters A to Z;
  beyond ASCII it follows Unicode, so that a capital E with an acute accent (U+00C9) is
  lowered to U+00E9.
\<close>

theorem search_filter_after_trim:
  "(trim (searchQuery fs) \<noteq> [] \<longleftrightarrow>
      (\<exists>x \<in> set (toCodePoints (searchQuery fs)). \<not> isWhiteSpace x)) \<and>
   ((\<exists>x \<in> set (toCodePoints (searchQuery fs)). \<not> isWhiteSpace x) \<longrightarrow>
      displayedLines (stats d fs) =
        filter (\<lambda>l. \<exists>p r. toLowerCase (name l) = p @ toLowerCase (searchQuery fs) @ r)
          (sortedLines d fs)) \<and>
   ((\<forall>x \<in> set (toCodePoints (searchQuery fs)). isWhiteSpace x) \<longrightarrow>
      displayedLines (stats d fs) =
        (if showAllLines fs \<or> searchQuery fs \<noteq> [] then sortedLines d fs
         else take 6 (sortedLines d fs))) \<and>
   ((\<forall>c \<in> set s. (of_char c :: int) < 0x80) \<longrightarrow> toLowerCase s = map asciiLowerCase s) \<and>
   toLowerCase [CHR 0xC3, CHR 0x89] = [CHR 0xC3, CHR 0xA9]"
proof -
  have guard: "trim (searchQuery fs) \<noteq> [] \<longleftrightarrow>
      (\<exists>x \<in> set (toCodePoints (searchQuery fs)). \<not> isWhiteSpace x)"
    using trim_Nil_iff [of "searchQuery fs"] by blast
  have filtered: "displayedLines (stats d fs) =
      filter (\<lambda>l. \<exists>p r. toLowerCase (name l) = p @ toLowerCase (searchQuery fs) @ r)
        (sortedLines d fs)"
    if "trim (searchQuery fs) \<noteq> []"
  proof -
    from that have "searchQuery fs \<noteq> []" by (rule trim_nonempty)
    with that show ?thesis
      by (simp add: stats_eq searchedLines_def Let_def String_includes_iff)
  qed
  have unfiltered: "displayedLines (stats d fs) =
      (if showAllLines fs \<or> searchQuery fs \<noteq> [] then sortedLines d fs
       else take 6 (sortedLines d fs))"
    if "trim (searchQuery fs) = []"
    using that by (simp add: stats_eq searchedLines_def trim_empty)
  have ascii: "toLowerCase s = map asciiLowerCase s" if "\<forall>c \<in> set s. (of_char c :: int) < 0x80"
    using that by (rule toLowerCase_ascii)
  have accented: "toLowerCase [CHR 0xC3, CHR 0x89] = [CHR 0xC3, CHR 0xA9]"
    by code_simp
  show ?thesis
    using guard filtered unfiltered ascii accented by blast
qed

theorem search_filter_after_trim_witness:
  "map name (displayedLines (stats exSearchData (initialFilterState\<lparr>searchQuery := ''c''\<rparr>))) =
     [''C1'', ''c2'', ''ABC''] \<and>
   map name (displayedLines
     (stats exSearchData (initialFilterState\<lparr>searchQuery := [CHR 0xC3, CHR 0xA9]\<rparr>))) =
     [[CHR 0xC3, CHR 0x89] @ ''1''] \<and>
   trim [CHR 0xC2, CHR 0xA0] = [] \<and>
   map name (displayedLines
     (stats exSearchData (initialFilterState\<lparr>searchQuery := [CHR 0xC2, CHR 0xA0]\<rparr>))) =
     [''C1'', ''D3'', ''c2'', ''ABC'', [CHR 0xC3, CHR 0x89] @ ''1''] \<and>
   toLowerCase ''ABC'' = ''abc''"
proof -
  let ?c = "initialFilterState\<lparr>searchQuery := ''c''\<rparr>"
  let ?e = "initialFilterState\<lparr>searchQuery := [CHR 0xC3, CHR 0xA9]\<rparr>"
  let ?b = "initialFilterState\<lparr>searchQuery := [CHR 0xC2, CHR 0xA0]\<rparr>"
  have typed:
    "\<exists>x \<in> set (toCodePoints (searchQuery ?c)). \<not> isWhiteSpace x"
    "\<exists>x \<in> set (toCodePoints (searchQuery ?e)). \<not> isWhiteSpace x"
    by code_simp+
  have blank: "\<forall>x \<in> set (toCodePoints (searchQuery ?b)). isWhiteSpace x"
    by code_simp
  have flags: "\<not> showAllLines ?b" "searchQuery ?b \<noteq> []"
    by (simp_all add: initialFilterState_def)
  have found:
    "map name (filter (\<lambda>l. String_includes (toLowerCase (name l)) (toLowerCase (searchQuery ?c)))
       (sortedLines exSearchData ?c)) = [''C1'', ''c2'', ''ABC'']"
    "map name (filter (\<lambda>l. String_includes (toLowerCase (name l)) (toLowerCase (searchQuery ?e)))
       (sortedLines exSearchData ?e)) = [[CHR 0xC3, CHR 0x89] @ ''1'']"
    "map name (sortedLines exSearchData ?b) =
       [''C1'', ''D3'', ''c2'', ''ABC'', [CHR 0xC3, CHR 0x89] @ ''1'']"
    by code_simp+
  have "displayedLines (stats exSearchData ?c) =
      filter (\<lambda>l. \<exists>p r. toLowerCase (name l) = p @ toLowerCase (searchQuery ?c) @ r)
        (sortedLines exSearchData ?c)"
    using search_filter_after_trim [of ?c exSearchData] typed(1) by blast
  then have c: "map name (displayedLines (stats exSearchData ?c)) = [''C1'', ''c2'', ''ABC'']"
    by (simp only: filter_includes found)
  have "displayedLines (stats exSearchData ?e) =
      filter (\<lambda>l. \<exists>p r. toLowerCase (name l) = p @ toLowerCase (searchQuery ?e) @ r)
        (sortedLines exSearchData ?e)"
    using search_filter_after_trim [of ?e exSearchData] typed(2) by blast
  then have e: "map name (displayedLines (stats exSearchData ?e)) = [[CHR 0xC3, CHR 0x89] @ ''1'']"
    by (simp only: filter_includes found)
  have "displayedLines (stats exSearchData ?b) =
      (if showAllLines ?b \<or> searchQuery ?b \<noteq> [] then sortedLines exSearchData ?b
       else take 6 (sortedLines exSearchData ?b))"
    using search_filter_after_trim [of ?b exSearchData] blank by blast
  then have b: "map name (displayedLines (stats exSearchData ?b)) =
      [''C1'', ''D3'', ''c2'', ''ABC'', [CHR 0xC3, CHR 0x89] @ ''1'']"
    using flags by (simp only: found if_True simp_thms)
  have "trim (searchQuery ?b) = []"
    using search_filter_after_trim [of ?b exSearchData] blank by blast
  then have t: "trim [CHR 0xC2, CHR 0xA0] = []" by simp
  have "\<forall>c \<in> set ''ABC''. (of_char c :: int) < 0x80" by simp
  then have "toLowerCase ''ABC'' = map asciiLowerCase ''ABC''"
    using search_filter_after_trim [of ?c exSearchData "''ABC''"] by blast
  moreover have "map asciiLowerCase ''ABC'' = ''abc''" by code_simp
  ultimately have a: "toLowerCase ''ABC'' = ''abc''" by (simp only:)
  from c e t b a show ?thesis by blast
qed

text \<open>
  The claim C4 as stated fails for a query that is not empty but blank: with the
  query of one space, both lines of the example are displayed although neither name
  contains a space.
\<close>

theorem search_nonempty_counterexample:
  "searchQuery (initialFilterState\<lparr>searchQuery := '' ''\<rparr>) \<noteq> [] \<and>
   displayedLines (stats exData (initialFilterState\<lparr>searchQuery := '' ''\<rparr>)) =
     [\<lparr>name = ''T1'', count = 2\<rparr>, \<lparr>name = ''L1'', count = 1\<rparr>] \<and>
   \<not> String_includes (toLowerCase ''T1'') (toLowerCase '' '') \<and>
   \<not> String_includes (toLowerCase ''L1'') (toLowerCase '' '')"
  by code_simp

text \<open>
  Claim C5. Without search text the displayed list is the first six entries of the
  sorted list, unless \<open>showAllLines\<close> is on, in which case it is the whole sorted list;
  with a non-empty search text it is the whole searched list, never capped. The sorted
  list has one entry per distinct line met by the scan of the type-filtered stops, so
  with ten distinct lines the three cases display six, ten and at most ten entries.
\<close>

theorem displayedLines_truncation:
  "(searchQuery fs = [] \<and> \<not> showAllLines fs \<longrightarrow>
      displayedLines (stats d fs) = take 6 (sortedLines d fs) \<and>
      length (displayedLines (stats d fs)) = min 6 (card (set (lineOccurrences d fs)))) \<and>
   (searchQuery fs = [] \<and> showAllLines fs \<longrightarrow>
      displayedLines (stats d fs) = sortedLines d fs \<and>
      length (displayedLines (stats d fs)) = card (set (lineOccurrences d fs))) \<and>
   (searchQuery fs \<noteq> [] \<longrightarrow>
      displayedLines (stats d fs) = searchedLines d fs \<and>
      length (displayedLines (stats d fs)) \<le> card (set (lineOccurrences d fs)))"
proof -
  have none: "searchedLines d fs = sortedLines d fs" if "searchQuery fs = []"
    using that by (simp add: searchedLines_def trim_empty)
  have "length (searchedLines d fs) \<le> length (sortedLines d fs)"
    using searchedLines_filter [of d fs] by auto
  then have le: "length (searchedLines d fs) \<le> card (set (lineOccurrences d fs))"
    by (simp add: sortedLines_length)
  show ?thesis
    using none le by (auto simp: stats_eq sortedLines_length)
qed

theorem displayedLines_truncation_witness:
  "card (set (lineOccurrences exTenData initialFilterState)) = 10 \<and>
   searchQuery initialFilterState = [] \<and> \<not> showAllLines initialFilterState \<and>
   length (displayedLines (stats exTenData initialFilterState)) = 6 \<and>
   length (displayedLines (stats exTenData (initialFilterState\<lparr>showAllLines := True\<rparr>))) = 10 \<and>
   searchQuery (initialFilterState\<lparr>searchQuery := ''c''\<rparr>) \<noteq> [] \<and>
   length (displayedLines (stats exTenData (initialFilterState\<lparr>searchQuery := ''c''\<rparr>))) \<le> 10"
proof -
  have ten: "card (set (lineOccurrences exTenData initialFilterState)) = 10"
    "card (set (lineOccurrences exTenData (initialFilterState\<lparr>showAllLines := True\<rparr>))) = 10"
    "card (set (lineOccurrences exTenData (initialFilterState\<lparr>searchQuery := ''c''\<rparr>))) = 10"
    by code_simp+
  have flags: "searchQuery initialFilterState = []" "\<not> showAllLines initialFilterState"
    by (simp_all add: initialFilterState_def)
  have all: "searchQuery (initialFilterState\<lparr>showAllLines := True\<rparr>) = [] \<and>
      showAllLines (initialFilterState\<lparr>showAllLines := True\<rparr>)"
    by (simp add: flags)
  have typed: "searchQuery (initialFilterState\<lparr>searchQuery := ''c''\<rparr>) \<noteq> []"
    by simp
  have "length (displayedLines (stats exTenData initialFilterState)) =
      min 6 (card (set (lineOccurrences exTenData initialFilterState)))"
    using displayedLines_truncation [of initialFilterState exTenData] flags by blast
  moreover have "length (displayedLines (stats exTenData (initialFilterState\<lparr>showAllLines := True\<rparr>))) =
      card (set (lineOccurrences exTenData (initialFilterState\<lparr>showAllLines := True\<rparr>)))"
    using displayedLines_truncation [of "initialFilterState\<lparr>showAllLines := True\<rparr>" exTenData] all
    by blast
  moreover have "length (displayedLines (stats exTenData (initialFilterState\<lparr>searchQuery := ''c''\<rparr>))) \<le>
      card (set (lineOccurrences exTenData (initialFilterState\<lparr>searchQuery := ''c''\<rparr>)))"
    using displayedLines_truncation [of "initialFilterState\<lparr>searchQuery := ''c''\<rparr>" exTenData] typed
    by blast
  ultimately show ?thesis using flags by (simp add: ten)
qed

section \<open>Stops without metadata\<close>

lemma keepByType_stopsData: "keepByType (d\<lparr>stopsData := zs\<rparr>) fs = keepByType d fs"
  by (simp add: fun_eq_iff keepByType_def)

lemma aggregateStop_stopsData: "aggregateStop (d\<lparr>stopsData := zs\<rparr>) = aggregateStop d"
  by (simp add: fun_eq_iff aggregateStop_def)

lemma aggregate_stopsData:
  "aggregate (d\<lparr>stopsData := zs\<rparr>) fs =
     foldl (aggregateStop d) (0, 0, []) (filter (keepByType d fs) zs)"
  by (simp add: aggregate_def stopsFilteredByType_def keepByType_stopsData aggregateStop_stopsData)

lemma aggregateStop_no_meta: "stopsMeta d (stop_id s) = None \<Longrightarrow> aggregateStop d acc s = acc"
  by (cases acc) (simp add: aggregateStop_def)

lemma stats_cong: "aggregate d fs = aggregate d' fs \<Longrightarrow> stats d fs = stats d' fs"
  by (simp add: stats_def searchedLines_def sortedLines_def)

lemma aggregate_skips_no_meta:
  assumes "stopsMeta d (stop_id s) = None"
  shows "aggregate (d\<lparr>stopsData := xs @ s # ys\<rparr>) fs = aggregate (d\<lparr>stopsData := xs @ ys\<rparr>) fs"
  using assms by (simp add: aggregate_stopsData aggregateStop_no_meta)

text \<open>
  Claim C9. A stop of the dataset without a metadata entry is visible when \<open>showStops\<close>
  and \<open>showBus\<close> are on and no line is selected, and its marker carries the bus icon.
  Yet it counts for nothing in the statistics: the bus count and the tram count count
  only stops that have metadata, and removing the stop from the dataset changes neither
  the counts nor any entry of the line list.
\<close>

theorem stop_without_meta:
  "(s \<in> set (stopsData d) \<and> stopsMeta d (stop_id s) = None \<and>
    showStops fs \<and> showBus fs \<and> selectedLines fs = {} \<longrightarrow>
      s \<in> set (visibleStops d fs) \<and>
      icon (stopMarker d colors s) = customIcon None) \<and>
   html (customIcon None) = ''<div class='' @ [CHR 0x22] @ ''stop-icon-wrapper icon-bus'' @ [CHR 0x22] @
     ''>'' @ busSVG @ ''</div>'' \<and>
   (stopsMeta d (stop_id s) = None \<longrightarrow>
      stats (d\<lparr>stopsData := xs @ s # ys\<rparr>) fs = stats (d\<lparr>stopsData := xs @ ys\<rparr>) fs) \<and>
   busCount (stats d fs) = length (filter (countedAs d False) (stopsFilteredByType d fs)) \<and>
   tramCount (stats d fs) = length (filter (countedAs d True) (stopsFilteredByType d fs))"
proof -
  have "s \<in> set (visibleStops d fs)"
    if "s \<in> set (stopsData d)" "stopsMeta d (stop_id s) = None" "showStops fs" "showBus fs"
      "selectedLines fs = {}"
    using that by (simp add: visibleStops_def stopsFilteredByType_def keepByType_iff)
  moreover have "icon (stopMarker d colors s) = customIcon None" if "stopsMeta d (stop_id s) = None"
    using that by (simp add: stopMarker_def)
  moreover have "html (customIcon None) = ''<div class='' @ [CHR 0x22] @ ''stop-icon-wrapper icon-bus'' @
      [CHR 0x22] @ ''>'' @ busSVG @ ''</div>''"
    by (simp add: customIcon_def)
  moreover have "stats (d\<lparr>stopsData := xs @ s # ys\<rparr>) fs = stats (d\<lparr>stopsData := xs @ ys\<rparr>) fs"
    if "stopsMeta d (stop_id s) = None"
    using that by (intro stats_cong aggregate_skips_no_meta)
  ultimately show ?thesis by (simp add: stats_eq)
qed

theorem stop_without_meta_witness:
  "exStop3 \<in> set (stopsData exData) \<and> stopsMeta exData (stop_id exStop3) = None \<and>
   showStops initialFilterState \<and> showBus initialFilterState \<and>
   selectedLines initialFilterState = {} \<and>
   exStop3 \<in> set (visibleStops exData initialFilterState) \<and>
   icon (stopMarker exData (lineColors exData) exStop3) = customIcon None \<and>
   stats (exData\<lparr>stopsData := [exStop1, exStop2] @ exStop3 # []\<rparr>) initialFilterState =
     stats (exData\<lparr>stopsData := [exStop1, exStop2] @ []\<rparr>) initialFilterState"
proof -
  have pre: "exStop3 \<in> set (stopsData exData)" "stopsMeta exData (stop_id exStop3) = None"
    "showStops initialFilterState" "showBus initialFilterState" "selectedLines initialFilterState = {}"
    by (simp_all add: exData_def exMeta_def exStop3_def initialFilterState_def)
  show ?thesis
    using stop_without_meta [of exStop3 exData initialFilterState "lineColors exData"
        "[exStop1, exStop2]" "[]"] pre
    by blast
qed

section \<open>User actions and the layers\<close>

lemma redraw_eq:
  "markersLayer app \<noteq> None \<Longrightarrow> shapesLayer app \<noteq> None \<Longrightarrow>
   redraw d app =
     app\<lparr>markersLayer :=
           Some (map (stopMarker d (lineColors d)) (visibleStops d (filterState app))),
         shapesLayer := Some (map shapePolyline (visibleShapes d (filterState app))),
         calls := calls app @ markerCalls d (filterState app) @ shapeCalls d (filterState app)\<rparr>"
  by (auto simp: redraw_def drawStops_eq drawShapes_eq)

lemma filterState_drawStops: "filterState (drawStops d app) = filterState app"
  by (simp add: drawStops_eq split: option.splits)

lemma filterState_drawShapes: "filterState (drawShapes d app) = filterState app"
  by (simp add: drawShapes_eq split: option.splits)

lemma filterState_redraw: "filterState (redraw d app) = filterState app"
  by (simp add: redraw_def filterState_drawStops filterState_drawShapes)

lemma layersInSync_redraw:
  "markersLayer app \<noteq> None \<Longrightarrow> shapesLayer app \<noteq> None \<Longrightarrow> layersInSync d (redraw d app)"
  by (simp add: redraw_eq layersInSync_def)

lemma visibleShapes_showStops: "visibleShapes d (fs\<lparr>showStops := b\<rparr>) = visibleShapes d fs"
  by (simp add: visibleShapes_def shapeKept_iff)

lemma visibleShapes_searchQuery: "visibleShapes d (fs\<lparr>searchQuery := q\<rparr>) = visibleShapes d fs"
  by (simp add: visibleShapes_def shapeKept_iff)

lemma visibleShapes_showAllLines: "visibleShapes d (fs\<lparr>showAllLines := b\<rparr>) = visibleShapes d fs"
  by (simp add: visibleShapes_def shapeKept_iff)

lemma keepByType_searchQuery: "keepByType d (fs\<lparr>searchQuery := q\<rparr>) = keepByType d fs"
  by (simp add: fun_eq_iff keepByType_def)

lemma keepByType_showAllLines: "keepByType d (fs\<lparr>showAllLines := b\<rparr>) = keepByType d fs"
  by (simp add: fun_eq_iff keepByType_def)

lemma onSelectedLine_searchQuery: "onSelectedLine d (fs\<lparr>searchQuery := q\<rparr>) = onSelectedLine d fs"
  by (simp add: fun_eq_iff onSelectedLine_def split: option.splits)

lemma onSelectedLine_showAllLines: "onSelectedLine d (fs\<lparr>showAllLines := b\<rparr>) = onSelectedLine d fs"
  by (simp add: fun_eq_iff onSelectedLine_def split: option.splits)

lemma visibleStops_searchQuery: "visibleStops d (fs\<lparr>searchQuery := q\<rparr>) = visibleStops d fs"
  by (simp add: visibleStops_def stopsFilteredByType_def keepByType_searchQuery
      onSelectedLine_searchQuery Let_def)

lemma visibleStops_showAllLines: "visibleStops d (fs\<lparr>showAllLines := b\<rparr>) = visibleStops d fs"
  by (simp add: visibleStops_def stopsFilteredByType_def keepByType_showAllLines
      onSelectedLine_showAllLines Let_def)

lemma layersInSync_handle:
  assumes "layersInSync d app"
  shows "layersInSync d (handle d a app)"
proof -
  from assms have init: "markersLayer app \<noteq> None" "shapesLayer app \<noteq> None"
    by (simp_all add: layersInSync_def)
  show ?thesis
  proof (cases a)
    case ToggleStopsMaster
    with assms show ?thesis
      by (simp add: toggleStopsMaster_def drawStops_eq layersInSync_def visibleShapes_showStops)
  next
    case (ToggleType type)
    with init show ?thesis by (simp add: toggleType_def Let_def layersInSync_redraw)
  next
    case (ToggleLine lineName)
    with init show ?thesis by (simp add: toggleLine_def Let_def layersInSync_redraw)
  next
    case ClearLineSelection
    with init show ?thesis by (simp add: clearLineSelection_def layersInSync_redraw)
  next
    case (SetSearchQuery q)
    with assms show ?thesis
      by (simp add: setSearchQuery_def layersInSync_def visibleShapes_searchQuery
          visibleStops_searchQuery)
  next
    case ToggleShowAllLines
    with assms show ?thesis
      by (simp add: toggleShowAllLines_def layersInSync_def visibleShapes_showAllLines
          visibleStops_showAllLines)
  qed
qed

lemma layersInSync_onMounted: "layersInSync d (onMounted d True initialApp)"
  by (simp add: onMounted_eq layersInSync_def)

lemma layersInSync_foldl:
  "layersInSync d app \<Longrightarrow> layersInSync d (foldl (\<lambda>app a. handle d a app) app as)"
  by (induction as arbitrary: app) (simp_all add: layersInSync_handle)

lemma calls_handle:
  assumes "markersLayer app \<noteq> None" and "shapesLayer app \<noteq> None"
  shows "calls (handle d a app) =
     calls app @
       (case a of
          ToggleStopsMaster \<Rightarrow> markerCalls d (filterState (handle d a app))
        | SetSearchQuery q \<Rightarrow> []
        | ToggleShowAllLines \<Rightarrow> []
        | _ \<Rightarrow> markerCalls d (filterState (handle d a app)) @
               shapeCalls d (filterState (handle d a app)))"
proof (cases a)
  case ToggleStopsMaster
  with assms show ?thesis by (auto simp: toggleStopsMaster_def drawStops_eq)
next
  case (ToggleType type)
  with assms show ?thesis by (simp add: toggleType_def Let_def redraw_eq)
next
  case (ToggleLine lineName)
  with assms show ?thesis by (simp add: toggleLine_def Let_def redraw_eq)
next
  case ClearLineSelection
  with assms show ?thesis by (simp add: clearLineSelection_def redraw_eq)
next
  case (SetSearchQuery q)
  then show ?thesis by (simp add: setSearchQuery_def)
next
  case ToggleShowAllLines
  then show ?thesis by (simp add: toggleShowAllLines_def)
qed

text \<open>
  Claim C6, as the code has it. Every handler keeps the two layers in step with the
  filter state: if the layers show the derived view before the action, they show the
  derived view of the new filter state after it, and they do so after mounting and after
  any sequence of actions. What is redrawn depends on the action: toggling a mode,
  toggling a line and clearing the selection clear and rebuild the marker layer and then
  the shapes layer; the master switch clears and rebuilds the marker layer only; setting
  the search text and toggling "show all lines" make no call on either layer.
\<close>

theorem handlers_keep_layers_in_sync:
  "(layersInSync d app \<longrightarrow> layersInSync d (handle d a app)) \<and>
   layersInSync d (foldl (\<lambda>app a. handle d a app) (onMounted d True initialApp) as) \<and>
   (markersLayer app \<noteq> None \<and> shapesLayer app \<noteq> None \<longrightarrow>
      calls (handle d a app) =
        calls app @
          (case a of
             ToggleStopsMaster \<Rightarrow> markerCalls d (filterState (handle d a app))
           | SetSearchQuery q \<Rightarrow> []
           | ToggleShowAllLines \<Rightarrow> []
           | _ \<Rightarrow> markerCalls d (filterState (handle d a app)) @
                  shapeCalls d (filterState (handle d a app))))"
  using layersInSync_handle [of d app a] calls_handle [of app d a]
    layersInSync_foldl [OF layersInSync_onMounted, of d as]
  by blast

theorem handlers_keep_layers_in_sync_witness:
  "layersInSync exData exApp \<and>
   layersInSync exData (handle exData (ToggleLine ''L1'') exApp) \<and>
   layersInSync exData
     (foldl (\<lambda>app a. handle exData a app) (onMounted exData True initialApp)
        [ToggleType Bus, SetSearchQuery ''t'', ToggleStopsMaster]) \<and>
   markersLayer exApp \<noteq> None \<and> shapesLayer exApp \<noteq> None \<and>
   calls (handle exData (ToggleLine ''L1'') exApp) =
     calls exApp @
       markerCalls exData (filterState (handle exData (ToggleLine ''L1'') exApp)) @
       shapeCalls exData (filterState (handle exData (ToggleLine ''L1'') exApp))"
proof -
  have sync: "layersInSync exData exApp"
    by (simp add: exApp_def onMounted_eq layersInSync_def)
  then have init: "markersLayer exApp \<noteq> None" "shapesLayer exApp \<noteq> None"
    by (simp_all add: layersInSync_def)
  show ?thesis
    using handlers_keep_layers_in_sync [of exData exApp "ToggleLine ''L1''"
        "[ToggleType Bus, SetSearchQuery ''t'', ToggleStopsMaster]"] sync init
    by simp
qed

text \<open>
  The claim C6 as stated fails: on the mounted example, whose two layers exist, the
  master switch makes one call, the clearing of the marker layer, and none on the shapes
  layer; setting the search text makes no call at all.
\<close>

theorem full_redraw_counterexample:
  "markersLayer exApp \<noteq> None \<and> shapesLayer exApp \<noteq> None \<and>
   calls (handle exData ToggleStopsMaster exApp) = calls exApp @ [MarkersClearLayers] \<and>
   calls (handle exData (SetSearchQuery ''c'') exApp) = calls exApp"
  by (simp add: exApp_def onMounted_eq toggleStopsMaster_def setSearchQuery_def drawStops_eq
      markerCalls_def visibleStops_def initialFilterState_def)

section \<open>The popup of a stop\<close>

lemma foldl_badges: "foldl (\<lambda>acc line. acc @ f line) acc ls = acc @ concat (map f ls)"
  by (induction ls arbitrary: acc) simp_all

lemma linesHtml_eq:
  "linesHtml colors meta =
     concat (map (lineBadge colors) (case meta of None \<Rightarrow> [] | Some m \<Rightarrow> lines m))"
  by (simp add: linesHtml_def foldl_badges split: option.splits)

lemma foldl_colors:
  "foldl (\<lambda>colors shape. colors(route_name shape \<mapsto> color shape)) m shapes line =
     (case find (\<lambda>shape. route_name shape = line) (rev shapes) of
        None \<Rightarrow> m line
      | Some shape \<Rightarrow> Some (color shape))"
  by (induction shapes rule: rev_induct) simp_all

lemma lineColors_eq:
  "lineColors d line =
     map_option color (find (\<lambda>shape. route_name shape = line) (rev (Object_values (shapesData d))))"
  by (simp add: lineColors_def foldl_colors split: option.splits)

lemma lineColors_unknown:
  assumes "\<forall>shape \<in> set (Object_values (shapesData d)). route_name shape \<noteq> line"
  shows "lineColors d line = None"
proof -
  have "find (\<lambda>shape. route_name shape = line) (rev (Object_values (shapesData d))) = None"
    using assms by (simp add: find_None_iff)
  then show ?thesis by (simp add: lineColors_eq)
qed

text \<open>
  Claim C8. The popup of a stop is built from the stop, its metadata and the colour
  table alone, and it is this text: the fixed header with the stop name; the badges
  container with one badge per line of the stop's metadata (none without metadata), in
  the order of the metadata, each badge holding the line name and coloured with the
  colour the table has for the line, or with the fixed colour \<open>#3b82f6\<close> when the table
  has none or an empty one; the accessibility row, which always reads "Oui", whatever
  the \<open>wheelchair\<close> field says; and the image block, present exactly for the stops
  named "Commerce" or "Vincent Gache" (the latter with a circumflex on the a) and
  absent for any other name. The colour the table has for a line is the colour of the
  last shape of that route name; it has none when no shape has that route name.
\<close>

theorem buildPopup_content:
  \<open>buildPopup colors meta stop =
     [CHR 0x0A] @
     ''      <div class="custom-popup">'' @
     [CHR 0x0A] @
     ''        <div class="popup-header">Nom du station : <strong>'' @
     stop_name stop @
     ''</strong></div>'' @
     [CHR 0x0A] @
     ''        <div class="popup-body">'' @
     [CHR 0x0A] @
     ''          <div class="popup-row">'' @
     [CHR 0x0A] @
     ''            <strong>Lignes :</strong>'' @
     [CHR 0x0A] @
     ''            <div class="badges-container">'' @
     concat (map (\<lambda>line.
         ''<span class="popup-line-badge" style="background-color: '' @
         (case colors line of
            None \<Rightarrow> ''#3b82f6''
          | Some c \<Rightarrow> if c = [] then ''#3b82f6'' else c) @
         '';">'' @ line @ ''</span>'')
       (case meta of None \<Rightarrow> [] | Some m \<Rightarrow> lines m)) @
     ''</div>'' @
     [CHR 0x0A] @
     ''          </div>'' @
     [CHR 0x0A] @
     ''          <div class="popup-row"><strong>Acc'' @
     [CHR 0xC3, CHR 0xA8] @
     ''s handicap'' @
     [CHR 0xC3, CHR 0xA9] @
     '' :</strong> Oui</div>'' @
     [CHR 0x0A] @
     ''          '' @
     (if stop_name stop = ''Commerce'' then
        ''<div class="popup-image"><img src="https://i.imgur.com/4GEU71O.png" al'' @
        ''t="Commerce Station" style="width:100%; height:auto; border-radius:4px'' @
        ''; margin-top:10px;"></div>''
      else if stop_name stop = ''Vincent G'' @
                               [CHR 0xC3, CHR 0xA2] @
                               ''che'' then
        ''<div class="popup-image"><img src="https://i.imgur.com/WbbaBkg.jpeg" a'' @
        ''lt="Vincent G'' @
        [CHR 0xC3, CHR 0xA2] @
        ''che" style="width:100%; height:auto; border-radius:4px; margin-top:10p'' @
        ''x;"></div>''
      else []) @
     [CHR 0x0A] @
     ''        </div>'' @
     [CHR 0x0A] @
     ''      </div>'' @
     [CHR 0x0A] @
     ''    '' \<and>
   buildPopup colors (Some (m\<lparr>wheelchair := w\<rparr>)) stop = buildPopup colors (Some m) stop \<and>
   lineColors d line =
     map_option color (find (\<lambda>shape. route_name shape = line) (rev (Object_values (shapesData d)))) \<and>
   ((\<forall>shape \<in> set (Object_values (shapesData d)). route_name shape \<noteq> line) \<longrightarrow>
      lineColors d line = None)\<close>
proof -
  have content: \<open>buildPopup colors meta stop =
     [CHR 0x0A] @
     ''      <div class="custom-popup">'' @
     [CHR 0x0A] @
     ''        <div class="popup-header">Nom du station : <strong>'' @
     stop_name stop @
     ''</strong></div>'' @
     [CHR 0x0A] @
     ''        <div class="popup-body">'' @
     [CHR 0x0A] @
     ''          <div class="popup-row">'' @
     [CHR 0x0A] @
     ''            <strong>Lignes :</strong>'' @
     [CHR 0x0A] @
     ''            <div class="badges-container">'' @
     concat (map (\<lambda>line.
         ''<span class="popup-line-badge" style="background-color: '' @
         (case colors line of
            None \<Rightarrow> ''#3b82f6''
          | Some c \<Rightarrow> if c = [] then ''#3b82f6'' else c) @
         '';">'' @ line @ ''</span>'')
       (case meta of None \<Rightarrow> [] | Some m \<Rightarrow> lines m)) @
     ''</div>'' @
     [CHR 0x0A] @
     ''          </div>'' @
     [CHR 0x0A] @
     ''          <div class="popup-row"><strong>Acc'' @
     [CHR 0xC3, CHR 0xA8] @
     ''s handicap'' @
     [CHR 0xC3, CHR 0xA9] @
     '' :</strong> Oui</div>'' @
     [CHR 0x0A] @
     ''          '' @
     (if stop_name stop = ''Commerce'' then
        ''<div class="popup-image"><img src="https://i.imgur.com/4GEU71O.png" al'' @
        ''t="Commerce Station" style="width:100%; height:auto; border-radius:4px'' @
        ''; margin-top:10px;"></div>''
      else if stop_name stop = ''Vincent G'' @
                               [CHR 0xC3, CHR 0xA2] @
                               ''che'' then
        ''<div class="popup-image"><img src="https://i.imgur.com/WbbaBkg.jpeg" a'' @
        ''lt="Vincent G'' @
        [CHR 0xC3, CHR 0xA2] @
        ''che" style="width:100%; height:auto; border-radius:4px; margin-top:10p'' @
        ''x;"></div>''
      else []) @
     [CHR 0x0A] @
     ''        </div>'' @
     [CHR 0x0A] @
     ''      </div>'' @
     [CHR 0x0A] @
     ''    ''\<close>
    by (simp add: buildPopup_def popupContent_def linesHtml_eq lineBadge_def [abs_def]
        lineColor_def handicapRow_def accessText_def imageHtml_def Commerce_def
        Vincent_Gache_def Let_def)
  have wheel: "buildPopup colors (Some (m\<lparr>wheelchair := w\<rparr>)) stop = buildPopup colors (Some m) stop"
    by (simp add: buildPopup_def linesHtml_def)
  have unknown: "lineColors d line = None"
    if "\<forall>shape \<in> set (Object_values (shapesData d)). route_name shape \<noteq> line"
    using that by (rule lineColors_unknown)
  from content wheel unknown lineColors_eq [of d line] show ?thesis by blast
qed

theorem buildPopup_content_witness:
  \<open>buildPopup (lineColors exData) (stopsMeta exData (stop_id exStop1)) exStop1 =
     [CHR 0x0A] @
     ''      <div class="custom-popup">'' @
     [CHR 0x0A] @
     ''        <div class="popup-header">Nom du station : <strong>Commerce</s'' @
     ''trong></div>'' @
     [CHR 0x0A] @
     ''        <div class="popup-body">'' @
     [CHR 0x0A] @
     ''          <div class="popup-row">'' @
     [CHR 0x0A] @
     ''            <strong>Lignes :</strong>'' @
     [CHR 0x0A] @
     ''            <div class="badges-container"><span class="popup-line-badg'' @
     ''e" style="background-color: #00a651;">T1</span></div>'' @
     [CHR 0x0A] @
     ''          </div>'' @
     [CHR 0x0A] @
     ''          <div class="popup-row"><strong>Acc'' @
     [CHR 0xC3, CHR 0xA8] @
     ''s handicap'' @
     [CHR 0xC3, CHR 0xA9] @
     '' :</strong> Oui</div>'' @
     [CHR 0x0A] @
     ''          <div class="popup-image"><img src="https://i.imgur.com/4GEU7'' @
     ''1O.png" alt="Commerce Station" style="width:100%; height:auto; border-'' @
     ''radius:4px; margin-top:10px;"></div>'' @
     [CHR 0x0A] @
     ''        </div>'' @
     [CHR 0x0A] @
     ''      </div>'' @
     [CHR 0x0A] @
     ''    '' \<and>
   buildPopup (lineColors exData) (stopsMeta exData (stop_id exStop2)) exStop2 =
     [CHR 0x0A] @
     ''      <div class="custom-popup">'' @
     [CHR 0x0A] @
     ''        <div class="popup-header">Nom du station : <strong>Gare</stron'' @
     ''g></div>'' @
     [CHR 0x0A] @
     ''        <div class="popup-body">'' @
     [CHR 0x0A] @
     ''          <div class="popup-row">'' @
     [CHR 0x0A] @
     ''            <strong>Lignes :</strong>'' @
     [CHR 0x0A] @
     ''            <div class="badges-container"><span class="popup-line-badg'' @
     ''e" style="background-color: #3b82f6;">L1</span><span class="popup-line'' @
     ''-badge" style="background-color: #00a651;">T1</span></div>'' @
     [CHR 0x0A] @
     ''          </div>'' @
     [CHR 0x0A] @
     ''          <div class="popup-row"><strong>Acc'' @
     [CHR 0xC3, CHR 0xA8] @
     ''s handicap'' @
     [CHR 0xC3, CHR 0xA9] @
     '' :</strong> Oui</div>'' @
     [CHR 0x0A] @
     ''          '' @
     [CHR 0x0A] @
     ''        </div>'' @
     [CHR 0x0A] @
     ''      </div>'' @
     [CHR 0x0A] @
     ''    '' \<and>
   buildPopup (lineColors exData) (stopsMeta exData (stop_id exStop3)) exStop3 =
     [CHR 0x0A] @
     ''      <div class="custom-popup">'' @
     [CHR 0x0A] @
     ''        <div class="popup-header">Nom du station : <strong>Quai</stron'' @
     ''g></div>'' @
     [CHR 0x0A] @
     ''        <div class="popup-body">'' @
     [CHR 0x0A] @
     ''          <div class="popup-row">'' @
     [CHR 0x0A] @
     ''            <strong>Lignes :</strong>'' @
     [CHR 0x0A] @
     ''            <div class="badges-container"></div>'' @
     [CHR 0x0A] @
     ''          </div>'' @
     [CHR 0x0A] @
     ''          <div class="popup-row"><strong>Acc'' @
     [CHR 0xC3, CHR 0xA8] @
     ''s handicap'' @
     [CHR 0xC3, CHR 0xA9] @
     '' :</strong> Oui</div>'' @
     [CHR 0x0A] @
     ''          '' @
     [CHR 0x0A] @
     ''        </div>'' @
     [CHR 0x0A] @
     ''      </div>'' @
     [CHR 0x0A] @
     ''    '' \<and>
   map route_name (Object_values (shapesData exData)) = [''T1'', ''L1''] \<and>
   lineColors exData ''42'' = None\<close>
proof -
  have colours: "lineColors exData ''T1'' = Some ''#00a651''" "lineColors exData ''L1'' = Some []"
    by (simp_all add: lineColors_def exData_def Object_values_def exShapeT1_def exShapeL1_def)
  have metas:
    "stopsMeta exData (stop_id exStop1) = Some \<lparr>is_tram = True, lines = [''T1''], wheelchair = None\<rparr>"
    "stopsMeta exData (stop_id exStop2) =
       Some \<lparr>is_tram = False, lines = [''L1'', ''T1''], wheelchair = Some False\<rparr>"
    "stopsMeta exData (stop_id exStop3) = None"
    by (simp_all add: exData_def exMeta_def exStop1_def exStop2_def exStop3_def)
  have names: "stop_name exStop1 = ''Commerce''" "stop_name exStop2 = ''Gare''"
    "stop_name exStop3 = ''Quai''"
    by (simp_all add: exStop1_def exStop2_def exStop3_def)
  have routes: "map route_name (Object_values (shapesData exData)) = [''T1'', ''L1'']"
    by (simp add: exData_def Object_values_def exShapeT1_def exShapeL1_def)
  have no42: "\<forall>shape \<in> set (Object_values (shapesData exData)). route_name shape \<noteq> ''42''"
    by (simp add: exData_def Object_values_def exShapeT1_def exShapeL1_def)
  note p1 = buildPopup_content [where colors = "lineColors exData" and stop = exStop1
      and meta = "stopsMeta exData (stop_id exStop1)" and d = exData and line = "''42''"]
  note p2 = buildPopup_content [where colors = "lineColors exData" and stop = exStop2
      and meta = "stopsMeta exData (stop_id exStop2)"]
  note p3 = buildPopup_content [where colors = "lineColors exData" and stop = exStop3
      and meta = "stopsMeta exData (stop_id exStop3)"]
  have w1: \<open>buildPopup (lineColors exData) (stopsMeta exData (stop_id exStop1)) exStop1 =
     [CHR 0x0A] @
     ''      <div class="custom-popup">'' @
     [CHR 0x0A] @
     ''        <div class="popup-header">Nom du station : <strong>Commerce</s'' @
     ''trong></div>'' @
     [CHR 0x0A] @
     ''        <div class="popup-body">'' @
     [CHR 0x0A] @
     ''          <div class="popup-row">'' @
     [CHR 0x0A] @
     ''            <strong>Lignes :</strong>'' @
     [CHR 0x0A] @
     ''            <div class="badges-container"><span class="popup-line-badg'' @
     ''e" style="background-color: #00a651;">T1</span></div>'' @
     [CHR 0x0A] @
     ''          </div>'' @
     [CHR 0x0A] @
     ''          <div class="popup-row"><strong>Acc'' @
     [CHR 0xC3, CHR 0xA8] @
     ''s handicap'' @
     [CHR 0xC3, CHR 0xA9] @
     '' :</strong> Oui</div>'' @
     [CHR 0x0A] @
     ''          <div class="popup-image"><img src="https://i.imgur.com/4GEU7'' @
     ''1O.png" alt="Commerce Station" style="width:100%; height:auto; border-'' @
     ''radius:4px; margin-top:10px;"></div>'' @
     [CHR 0x0A] @
     ''        </div>'' @
     [CHR 0x0A] @
     ''      </div>'' @
     [CHR 0x0A] @
     ''    ''\<close>
    using p1 by (simp add: metas names colours)
  have w2: \<open>buildPopup (lineColors exData) (stopsMeta exData (stop_id exStop2)) exStop2 =
     [CHR 0x0A] @
     ''      <div class="custom-popup">'' @
     [CHR 0x0A] @
     ''        <div class="popup-header">Nom du station : <strong>Gare</stron'' @
     ''g></div>'' @
     [CHR 0x0A] @
     ''        <div class="popup-body">'' @
     [CHR 0x0A] @
     ''          <div class="popup-row">'' @
     [CHR 0x0A] @
     ''            <strong>Lignes :</strong>'' @
     [CHR 0x0A] @
     ''            <div class="badges-container"><span class="popup-line-badg'' @
     ''e" style="background-color: #3b82f6;">L1</span><span class="popup-line'' @
     ''-badge" style="background-color: #00a651;">T1</span></div>'' @
     [CHR 0x0A] @
     ''          </div>'' @
     [CHR 0x0A] @
     ''          <div class="popup-row"><strong>Acc'' @
     [CHR 0xC3, CHR 0xA8] @
     ''s handicap'' @
     [CHR 0xC3, CHR 0xA9] @
     '' :</strong> Oui</div>'' @
     [CHR 0x0A] @
     ''          '' @
     [CHR 0x0A] @
     ''        </div>'' @
     [CHR 0x0A] @
     ''      </div>'' @
     [CHR 0x0A] @
     ''    ''\<close>
    using p2 by (simp add: metas names colours)
  have w3: \<open>buildPopup (lineColors exData) (stopsMeta exData (stop_id exStop3)) exStop3 =
     [CHR 0x0A] @
     ''      <div class="custom-popup">'' @
     [CHR 0x0A] @
     ''        <div class="popup-header">Nom du station : <strong>Quai</stron'' @
     ''g></div>'' @
     [CHR 0x0A] @
     ''        <div class="popup-body">'' @
     [CHR 0x0A] @
     ''          <div class="popup-row">'' @
     [CHR 0x0A] @
     ''            <strong>Lignes :</strong>'' @
     [CHR 0x0A] @
     ''            <div class="badges-container"></div>'' @
     [CHR 0x0A] @
     ''          </div>'' @
     [CHR 0x0A] @
     ''          <div class="popup-row"><strong>Acc'' @
     [CHR 0xC3, CHR 0xA8] @
     ''s handicap'' @
     [CHR 0xC3, CHR 0xA9] @
     '' :</strong> Oui</div>'' @
     [CHR 0x0A] @
     ''          '' @
     [CHR 0x0A] @
     ''        </div>'' @
     [CHR 0x0A] @
     ''      </div>'' @
     [CHR 0x0A] @
     ''    ''\<close>
    using p3 by (simp add: metas names colours)
  have "lineColors exData ''42'' = None" using p1 no42 by blast
  with w1 w2 w3 routes show ?thesis by blast
qed

end
